theory Spec2Isabelle
  imports Complex_Main "HOL-Library.Sublist" "HOL-Library.List_Lexorder" "HOL-Library.Char_ord"
begin

section \<open>R primitives used by \<^verbatim>\<open>mars.R\<close> and \<^verbatim>\<open>plumber.R\<close>\<close>

text \<open>
  The notebook holds two R scripts: \<^verbatim>\<open>mars.R\<close> (setup, \<^verbatim>\<open>train\<close>, \<^verbatim>\<open>serve\<close>, start-up
  dispatch) and \<^verbatim>\<open>plumber.R\<close> (the \<^verbatim>\<open>/ping\<close> and \<^verbatim>\<open>/invocations\<close> handlers). Base R
  operations whose meaning the scripts depend on are written out here; functions of the
  packages \<^verbatim>\<open>mda\<close>, \<^verbatim>\<open>jsonlite\<close> and \<^verbatim>\<open>plumber\<close>, and the text formats of base R, are
  parameters of the model (record \<open>rlib\<close> below).
\<close>

text \<open>\<^verbatim>\<open>paste(a, b, sep=s)\<close> on two strings.\<close>

definition paste_sep :: "string \<Rightarrow> string \<Rightarrow> string \<Rightarrow> string" where
  "paste_sep a b s = a @ s @ b"

text \<open>\<^verbatim>\<open>paste(xs, collapse=s)\<close> on a character vector; the empty vector gives the empty string.\<close>

fun paste_collapse :: "string list \<Rightarrow> string \<Rightarrow> string" where
  "paste_collapse [] s = []"
| "paste_collapse [x] s = x"
| "paste_collapse (x # y # ys) s = x @ s @ paste_collapse (y # ys) s"

text \<open>
  \<^verbatim>\<open>grepl(pattern, x)\<close> for a pattern without regular-expression metacharacters
  (\<^verbatim>\<open>'train'\<close>, \<^verbatim>\<open>'serve'\<close>): true when the pattern occurs anywhere in \<open>x\<close>.
\<close>

fun grepl :: "string \<Rightarrow> string \<Rightarrow> bool" where
  "grepl pat [] = (pat = [])"
| "grepl pat (c # cs) = (prefix pat (c # cs) \<or> grepl pat cs)"

text \<open>
  \<^verbatim>\<open>gsub(pattern, replacement, x)\<close> for a pattern that denotes one literal string: every
  occurrence, found left to right without overlap, is replaced. An empty pattern is not
  used by the scripts and leaves the text as it is here.
\<close>

function gsub :: "string \<Rightarrow> string \<Rightarrow> string \<Rightarrow> string" where
  "gsub pat rep [] = []"
| "gsub pat rep (c # cs) =
     (if pat \<noteq> [] \<and> prefix pat (c # cs)
      then rep @ gsub pat rep (drop (length pat) (c # cs))
      else c # gsub pat rep cs)"
  by pat_completeness auto
termination
  by (relation "measure (\<lambda>(pat, rep, s). length s)") (auto simp: neq_Nil_conv)

text \<open>
  The regular expression \<^verbatim>\<open>'\\\\n'\<close> of \<^verbatim>\<open>plumber.R\<close> is the R string of the three
  characters backslash, backslash, n: as a regular expression, a literal backslash followed
  by the letter n. The replacement \<^verbatim>\<open>'\n'\<close> is the one-character string holding a newline.
\<close>

definition backslash_n :: string where
  "backslash_n = [CHR 0x5C, CHR ''n'']"

definition newline :: string where
  "newline = [CHR 0x0A]"

text \<open>
  \<^verbatim>\<open>x$name\<close> on a named list: the first element whose name is exactly \<open>name\<close>; failing
  that, the one element whose name starts with \<open>name\<close> when there is exactly one; otherwise
  \<^verbatim>\<open>NULL\<close> (here \<open>None\<close>).
\<close>

definition dollar :: "(string \<times> 'a) list \<Rightarrow> string \<Rightarrow> 'a option" where
  "dollar xs name =
     (case map_of xs name of
        Some v \<Rightarrow> Some v
      | None \<Rightarrow>
          (case filter (\<lambda>kv. prefix name (fst kv)) xs of
             [kv] \<Rightarrow> Some (snd kv)
           | _ \<Rightarrow> None))"

section \<open>Data\<close>

text \<open>Errors raised by the scripts; \<open>Lib\<close> is an error raised inside a library function.\<close>

datatype error =
    CannotOpen string
  | BadMagic string
  | NoData
  | NoTarget
  | UndefinedColumns string
  | Contrasts string
  | NewLevel string string
  | NoPredictMethod
  | Lib string

text \<open>
  A column of a data frame as \<^verbatim>\<open>read.csv\<close> yields it: numeric, factor (levels, then the
  cells by their level names) or logical. \<open>None\<close> is \<^verbatim>\<open>NA\<close>.
\<close>

datatype column =
    Numeric "real option list"
  | Factor "string list" "string option list"
  | Logical "bool option list"

type_synonym data_frame = "(string \<times> column) list"

text \<open>A variable of a model frame: the same without missing cells.\<close>

datatype variable =
    NumVar "real list"
  | FacVar "string list" "string list"
  | LogVar "bool list"

type_synonym model_frame = "(string \<times> variable) list"

text \<open>A numeric matrix with named columns, held column by column.\<close>

type_synonym design_matrix = "(string \<times> real list) list"

text \<open>The category-level mapping: for each factor its name and levels.\<close>

type_synonym xlevels = "(string \<times> string list) list"

text \<open>R values held in a fitted model, and an R list with names and a class attribute.\<close>

datatype rvalue = RNum "real list" | RChr "string list"

record robject =
  elems :: "(string \<times> rvalue) list"
  class_attr :: "string list"

text \<open>The two objects \<^verbatim>\<open>save(mars_model, factor_levels, file=...)\<close> stores.\<close>

record artifact =
  mars_model :: robject
  factor_levels :: xlevels

datatype rfile = Text string | RData artifact

text \<open>
  The container's file system (path to content, first entry wins), its directories, and
  what the process has printed.
\<close>

record world =
  files :: "(string \<times> rfile) list"
  dirs :: "string list"
  console :: "string list"

text \<open>
  Library functions taken as parameters. \<open>read_json\<close>: \<^verbatim>\<open>jsonlite::read_json\<close> on the text of
  the hyperparameter file, which the platform writes as a JSON object of strings.
  \<open>parse_number\<close>: R's reading of a string as a number (\<^verbatim>\<open>as.numeric\<close>, \<^verbatim>\<open>type.convert\<close>),
  \<open>None\<close> when it is not one. \<open>csv_scan\<close>: the scanning stage of \<^verbatim>\<open>read.csv\<close>, giving the
  named columns of fields before type conversion. \<open>rbind\<close>: \<^verbatim>\<open>rbind\<close> of two or more data
  frames. \<open>model_matrix_other\<close>: \<^verbatim>\<open>model.matrix(~., d)\<close> when \<open>d\<close> is not a data frame with
  columns, but one without any (\<open>[]\<close>) or a bare vector (\<open>[c]\<close>). \<open>mars\<close>:
  \<^verbatim>\<open>mda::mars(x, y, degree)\<close>, where \<open>y\<close> is a column, or \<open>None\<close> for a data frame without
  columns, and the degree \<open>None\<close> is \<^verbatim>\<open>NA\<close>. \<open>predict_mars\<close>: \<^verbatim>\<open>predict.mars\<close> on one row
  of the new data (each fitted value depends on its own row only). \<open>summary_lines\<close>: what
  \<^verbatim>\<open>print(summary(...))\<close> prints. \<open>write_csv\<close>: the text \<^verbatim>\<open>write.csv(..., row.names=FALSE)\<close>
  writes. \<open>as_character\<close>: how \<^verbatim>\<open>paste\<close> renders a number. \<open>json_escape\<close>: jsonlite's
  escaping inside a JSON string. \<open>error_body\<close>: the body plumber sends for an error.
\<close>

record rlib =
  read_json :: "string \<Rightarrow> error + (string \<times> string) list"
  parse_number :: "string \<Rightarrow> real option"
  csv_scan :: "string \<Rightarrow> error + (string \<times> string option list) list"
  rbind :: "data_frame list \<Rightarrow> error + data_frame"
  model_matrix_other :: "column list \<Rightarrow> error + design_matrix"
  mars :: "design_matrix \<Rightarrow> column option \<Rightarrow> real option \<Rightarrow> error + robject"
  predict_mars :: "robject \<Rightarrow> string list \<Rightarrow> real list \<Rightarrow> error + real"
  summary_lines :: "robject \<Rightarrow> string list"
  write_csv :: "rvalue option \<Rightarrow> error + string"
  as_character :: "real \<Rightarrow> string"
  json_escape :: "string \<Rightarrow> string"
  error_body :: "error \<Rightarrow> string"

section \<open>Setup parameters of \<^verbatim>\<open>mars.R\<close>\<close>

definition prefix_dir :: string where
  "prefix_dir = ''/opt/ml''"

definition input_path :: string where
  "input_path = paste_sep prefix_dir ''input/data'' ''/''"

definition output_path :: string where
  "output_path = paste_sep prefix_dir ''output'' ''/''"

definition model_path :: string where
  "model_path = paste_sep prefix_dir ''model'' ''/''"

definition param_path :: string where
  "param_path = paste_sep prefix_dir ''input/config/hyperparameters.json'' ''/''"

definition channel_name :: string where
  "channel_name = ''train''"

definition training_path :: string where
  "training_path = paste_sep input_path channel_name ''/''"

section \<open>Files\<close>

definition file_at :: "world \<Rightarrow> string \<Rightarrow> rfile option" where
  "file_at w p = map_of (files w) p"

text \<open>The directory part of a path: what stands before its last slash.\<close>

definition dirname :: "string \<Rightarrow> string" where
  "dirname p = rev (drop 1 (dropWhile (\<lambda>c. c \<noteq> CHR ''/'') (rev p)))"

text \<open>
  Writing a file replaces it; the write fails when the directory of the path does not
  exist, and then nothing is written.
\<close>

definition write_file :: "world \<Rightarrow> string \<Rightarrow> rfile \<Rightarrow> error + world" where
  "write_file w p f =
     (if dirname p \<in> set (dirs w) then Inr (w\<lparr>files := (p, f) # files w\<rparr>)
      else Inl (CannotOpen p))"

text \<open>
  \<^verbatim>\<open>list.files(path=dir, full.names=TRUE)\<close>: the entries directly inside \<open>dir\<close>, hidden ones
  left out, sorted.
\<close>

definition is_entry_of :: "string \<Rightarrow> string \<Rightarrow> bool" where
  "is_entry_of dir p =
     (prefix (dir @ ''/'') p \<and>
      (let name = drop (length dir + 1) p in
       name \<noteq> [] \<and> CHR ''/'' \<notin> set name \<and> \<not> prefix ''.'' name))"

definition list_files :: "world \<Rightarrow> string \<Rightarrow> string list" where
  "list_files w dir = sort (remdups (filter (is_entry_of dir) (map fst (files w) @ dirs w)))"

section \<open>\<^verbatim>\<open>read.csv\<close>\<close>

definition as_logical :: "string \<Rightarrow> bool option" where
  "as_logical s =
     (if s \<in> set [''T'', ''TRUE'', ''true'', ''True''] then Some True
      else if s \<in> set [''F'', ''FALSE'', ''false'', ''False''] then Some False
      else None)"

definition is_blank :: "string \<Rightarrow> bool" where
  "is_blank s = list_all (\<lambda>c. c \<in> set [CHR '' '', CHR 0x09, CHR 0x0A, CHR 0x0B, CHR 0x0C, CHR 0x0D]) s"

text \<open>
  The image installs the R of Ubuntu 16.04, where \<^verbatim>\<open>read.csv\<close> turns strings into factors.
  \<^verbatim>\<open>type.convert\<close> as \<^verbatim>\<open>read.csv\<close> calls it (strings become factors): the first type that
  accepts every cell that is neither missing nor blank: logical, then numeric, then factor
  with the sorted distinct values as levels. In a logical or numeric column a blank cell
  is missing.
\<close>

definition type_convert :: "(string \<Rightarrow> real option) \<Rightarrow> string option list \<Rightarrow> column" where
  "type_convert num cells =
     (let given = filter (\<lambda>s. \<not> is_blank s) (List.map_filter id cells) in
      if list_all (\<lambda>s. as_logical s \<noteq> None) given
        then Logical (map (\<lambda>c. Option.bind c as_logical) cells)
      else if list_all (\<lambda>s. num s \<noteq> None) given
        then Numeric (map (\<lambda>c. Option.bind c num) cells)
      else Factor (sort (remdups (List.map_filter id cells))) cells)"

definition read_csv :: "rlib \<Rightarrow> string \<Rightarrow> error + data_frame" where
  "read_csv lib txt =
     (case csv_scan lib txt of
        Inl e \<Rightarrow> Inl e
      | Inr cols \<Rightarrow> Inr (map (\<lambda>nc. (fst nc, type_convert (parse_number lib) (snd nc))) cols))"

text \<open>\<^verbatim>\<open>read.csv(path)\<close>: the path must be a readable text file.\<close>

definition read_csv_file :: "rlib \<Rightarrow> world \<Rightarrow> string \<Rightarrow> error + data_frame" where
  "read_csv_file lib w p =
     (case file_at w p of
        Some (Text txt) \<Rightarrow> read_csv lib txt
      | Some (RData a) \<Rightarrow> Inl (Lib ''read.csv'')
      | None \<Rightarrow> Inl (CannotOpen p))"

section \<open>\<^verbatim>\<open>model.matrix(~., data, xlev)\<close>\<close>

fun cell_na :: "column \<Rightarrow> bool list" where
  "cell_na (Numeric xs) = map (\<lambda>x. x = None) xs"
| "cell_na (Factor lv xs) = map (\<lambda>x. x = None) xs"
| "cell_na (Logical xs) = map (\<lambda>x. x = None) xs"

definition nrow :: "data_frame \<Rightarrow> nat" where
  "nrow df = (case df of [] \<Rightarrow> 0 | nc # _ \<Rightarrow> length (cell_na (snd nc)))"

text \<open>The rows with a missing cell in some column, which \<^verbatim>\<open>na.omit\<close> drops.\<close>

definition na_mask :: "data_frame \<Rightarrow> bool list" where
  "na_mask df = foldr (\<lambda>nc m. map2 (\<or>) (cell_na (snd nc)) m) df (replicate (nrow df) False)"

definition keep_rows :: "bool list \<Rightarrow> 'a option list \<Rightarrow> 'a list" where
  "keep_rows msk xs = List.map_filter id (map snd (filter (\<lambda>mx. \<not> fst mx) (zip msk xs)))"

fun omit_col :: "bool list \<Rightarrow> column \<Rightarrow> variable" where
  "omit_col msk (Numeric xs) = NumVar (keep_rows msk xs)"
| "omit_col msk (Factor lv xs) = FacVar lv (keep_rows msk xs)"
| "omit_col msk (Logical xs) = LogVar (keep_rows msk xs)"

definition na_omit :: "data_frame \<Rightarrow> model_frame" where
  "na_omit df = map (\<lambda>nc. (fst nc, omit_col (na_mask df) (snd nc))) df"

text \<open>
  The \<^verbatim>\<open>xlev\<close> step of \<^verbatim>\<open>model.frame\<close> for one name: a factor of that name has its unused
  levels dropped, must then have no level outside \<open>xl\<close>, and gets \<open>xl\<close> as its levels. A
  variable that is not a factor, or is absent, only draws a warning and stays as it is.
\<close>

fun relevel :: "string \<Rightarrow> string list \<Rightarrow> model_frame \<Rightarrow> error + model_frame" where
  "relevel nm xl [] = Inr []"
| "relevel nm xl (nv # mf) =
     (if fst nv = nm then
        (case snd nv of
           FacVar lv vals \<Rightarrow>
             (case filter (\<lambda>l. l \<in> set vals \<and> l \<notin> set xl) lv of
                [] \<Rightarrow> Inr ((nm, FacVar xl vals) # mf)
              | l # _ \<Rightarrow> Inl (NewLevel nm l))
         | _ \<Rightarrow> Inr (nv # mf))
      else
        (case relevel nm xl mf of
           Inl e \<Rightarrow> Inl e
         | Inr mf' \<Rightarrow> Inr (nv # mf')))"

fun apply_xlev :: "xlevels \<Rightarrow> model_frame \<Rightarrow> error + model_frame" where
  "apply_xlev [] mf = Inr mf"
| "apply_xlev (nx # rest) mf =
     (case relevel (fst nx) (snd nx) mf of
        Inl e \<Rightarrow> Inl e
      | Inr mf' \<Rightarrow> apply_xlev rest mf')"

definition model_frame :: "data_frame \<Rightarrow> xlevels \<Rightarrow> error + model_frame" where
  "model_frame df xlev = apply_xlev xlev (na_omit df)"

text \<open>
  The columns one variable contributes: a numeric variable itself; a factor one indicator
  per level but the first (treatment contrasts), named variable name followed by level,
  and an error when it has fewer than two levels; a logical variable the indicator of
  \<^verbatim>\<open>TRUE\<close>.
\<close>

definition indicator :: "bool \<Rightarrow> real" where
  "indicator b = (if b then 1 else 0)"

fun expand_var :: "string \<Rightarrow> variable \<Rightarrow> error + design_matrix" where
  "expand_var n (NumVar xs) = Inr [(n, xs)]"
| "expand_var n (FacVar lv vals) =
     (if length lv < 2 then Inl (Contrasts n)
      else Inr (map (\<lambda>l. (n @ l, map (\<lambda>v. indicator (v = l)) vals)) (tl lv)))"
| "expand_var n (LogVar bs) = Inr [(n @ ''TRUE'', map indicator bs)]"

fun expand_vars :: "model_frame \<Rightarrow> error + design_matrix" where
  "expand_vars [] = Inr []"
| "expand_vars (nv # mf) =
     (case expand_var (fst nv) (snd nv) of
        Inl e \<Rightarrow> Inl e
      | Inr cs \<Rightarrow>
          (case expand_vars mf of
             Inl e \<Rightarrow> Inl e
           | Inr ds \<Rightarrow> Inr (cs @ ds)))"

definition nrow_mf :: "model_frame \<Rightarrow> nat" where
  "nrow_mf mf =
     (case mf of
        [] \<Rightarrow> 0
      | nv # _ \<Rightarrow>
          (case snd nv of
             NumVar xs \<Rightarrow> length xs
           | FacVar lv vals \<Rightarrow> length vals
           | LogVar bs \<Rightarrow> length bs))"

text \<open>
  The design matrix of the formula \<^verbatim>\<open>~.\<close>: the intercept, then every variable of the data
  in order. What a data frame without columns gives is left to the library.
\<close>

definition model_matrix :: "rlib \<Rightarrow> data_frame \<Rightarrow> xlevels \<Rightarrow> error + design_matrix" where
  "model_matrix lib df xlev =
     (if df = [] then model_matrix_other lib []
      else
        (case model_frame df xlev of
           Inl e \<Rightarrow> Inl e
         | Inr mf \<Rightarrow>
             (case expand_vars mf of
                Inl e \<Rightarrow> Inl e
              | Inr cs \<Rightarrow> Inr ((''(Intercept)'', replicate (nrow_mf mf) 1) # cs))))"

definition colnames :: "('a \<times> 'b) list \<Rightarrow> 'a list" where
  "colnames m = map fst m"

definition matrix_rows :: "design_matrix \<Rightarrow> real list list" where
  "matrix_rows m = transpose (map snd m)"

section \<open>\<^verbatim>\<open>train\<close>\<close>

text \<open>\<^verbatim>\<open>read_json(param_path)\<close>.\<close>

definition read_params :: "rlib \<Rightarrow> world \<Rightarrow> error + (string \<times> string) list" where
  "read_params lib w =
     (case file_at w param_path of
        Some (Text txt) \<Rightarrow> read_json lib txt
      | Some (RData a) \<Rightarrow> Inl (Lib ''read_json'')
      | None \<Rightarrow> Inl (CannotOpen param_path))"

text \<open>
  The degree: \<^verbatim>\<open>as.numeric(training_params$degree)\<close> unless \<^verbatim>\<open>training_params$degree\<close> is
  \<^verbatim>\<open>NULL\<close>, and then 2. A string that is not a number gives \<^verbatim>\<open>NA\<close>.
\<close>

definition degree_of :: "rlib \<Rightarrow> (string \<times> string) list \<Rightarrow> real option" where
  "degree_of lib training_params =
     (case dollar training_params ''degree'' of
        Some s \<Rightarrow> parse_number lib s
      | None \<Rightarrow> Some 2)"

text \<open>\<^verbatim>\<open>lapply(training_files, read.csv)\<close>: the first file that fails ends the run.\<close>

fun read_all :: "rlib \<Rightarrow> world \<Rightarrow> string list \<Rightarrow> error + data_frame list" where
  "read_all lib w [] = Inr []"
| "read_all lib w (p # ps) =
     (case read_csv_file lib w p of
        Inl e \<Rightarrow> Inl e
      | Inr d \<Rightarrow>
          (case read_all lib w ps of
             Inl e \<Rightarrow> Inl e
           | Inr ds \<Rightarrow> Inr (d # ds)))"

text \<open>
  \<^verbatim>\<open>do.call(rbind, ...)\<close>: no file gives \<^verbatim>\<open>NULL\<close>, on which \<^verbatim>\<open>model.matrix\<close> then fails; one
  file gives its data frame.
\<close>

definition load_training_data :: "rlib \<Rightarrow> world \<Rightarrow> error + data_frame" where
  "load_training_data lib w =
     (case read_all lib w (list_files w training_path) of
        Inl e \<Rightarrow> Inl e
      | Inr [] \<Rightarrow> Inl NoData
      | Inr [d] \<Rightarrow> Inr d
      | Inr ds \<Rightarrow> rbind lib ds)"

text \<open>
  \<^verbatim>\<open>model.matrix(~., training_data[, colnames(training_data) != target])\<close>. With
  \<^verbatim>\<open>target\<close> \<^verbatim>\<open>NULL\<close> the comparison is empty and selects no column; one selected column
  is dropped to a bare vector.
\<close>

definition training_features :: "data_frame \<Rightarrow> string option \<Rightarrow> data_frame" where
  "training_features training_data target =
     (case target of
        None \<Rightarrow> []
      | Some t \<Rightarrow> filter (\<lambda>nc. fst nc \<noteq> t) training_data)"

definition training_matrix :: "rlib \<Rightarrow> data_frame \<Rightarrow> string option \<Rightarrow> error + design_matrix" where
  "training_matrix lib training_data target =
     (case training_features training_data target of
        [nc] \<Rightarrow> model_matrix_other lib [snd nc]
      | fs \<Rightarrow> model_matrix lib fs [])"

text \<open>
  \<^verbatim>\<open>lapply(training_data[, sapply(training_data, is.factor), drop=FALSE], levels)\<close>: the
  levels of every factor column of the training data, the target included.
\<close>

fun levels_of :: "data_frame \<Rightarrow> xlevels" where
  "levels_of [] = []"
| "levels_of (nc # df) =
     (case snd nc of
        Factor lv vals \<Rightarrow> (fst nc, lv) # levels_of df
      | _ \<Rightarrow> levels_of df)"

text \<open>\<^verbatim>\<open>training_data[, target]\<close>.\<close>

definition target_column :: "data_frame \<Rightarrow> string option \<Rightarrow> error + column option" where
  "target_column training_data target =
     (case target of
        None \<Rightarrow> Inr None
      | Some t \<Rightarrow>
          (case map_of training_data t of
             None \<Rightarrow> Inl (UndefinedColumns t)
           | Some c \<Rightarrow> Inr (Some c)))"

text \<open>
  \<^verbatim>\<open>model[!(names(model) %in% c('x', 'residuals', 'fitted.values'))]\<close>, which keeps the
  names and no other attribute, followed by \<^verbatim>\<open>attributes(mars_model)$class <- 'mars'\<close>.
\<close>

definition bulk_fields :: "string list" where
  "bulk_fields = [''x'', ''residuals'', ''fitted.values'']"

definition trim_model :: "robject \<Rightarrow> robject" where
  "trim_model model =
     \<lparr>elems = filter (\<lambda>kv. fst kv \<notin> set bulk_fields) (elems model), class_attr = [''mars'']\<rparr>"

text \<open>Everything \<^verbatim>\<open>train\<close> computes before it writes: the fitted model and the levels.\<close>

definition fit :: "rlib \<Rightarrow> world \<Rightarrow> error + (robject \<times> xlevels)" where
  "fit lib w =
     (case read_params lib w of
        Inl e \<Rightarrow> Inl e
      | Inr training_params \<Rightarrow>
          (let target = dollar training_params ''target'';
               degree = degree_of lib training_params
           in case load_training_data lib w of
                Inl e \<Rightarrow> Inl e
              | Inr training_data \<Rightarrow>
                  (case training_matrix lib training_data target of
                     Inl e \<Rightarrow> Inl e
                   | Inr training_X \<Rightarrow>
                       (case target_column training_data target of
                          Inl e \<Rightarrow> Inl e
                        | Inr y \<Rightarrow>
                            (case mars lib training_X y degree of
                               Inl e \<Rightarrow> Inl e
                             | Inr model \<Rightarrow> Inr (model, levels_of training_data))))))"

definition artifact_file :: string where
  "artifact_file = paste_sep model_path ''mars_model.RData'' ''/''"

definition fitted_values_file :: string where
  "fitted_values_file = paste_sep output_path ''data/fitted_values.csv'' ''/''"

definition success_file :: string where
  "success_file = paste_sep output_path ''success'' ''/''"

text \<open>
  The training routine: the world it leaves and how it ended. An error ends the routine
  where it is raised; what was written before stays.
\<close>

definition train :: "rlib \<Rightarrow> world \<Rightarrow> world \<times> (error + unit)" where
  "train lib w =
     (case fit lib w of
        Inl e \<Rightarrow> (w, Inl e)
      | Inr (model, levels) \<Rightarrow>
          (let trimmed = trim_model model in
           case write_file w artifact_file (RData \<lparr>mars_model = trimmed, factor_levels = levels\<rparr>) of
             Inl e \<Rightarrow> (w, Inl e)
           | Inr w1 \<Rightarrow>
               (let w2 = w1\<lparr>console := console w1 @ summary_lines lib trimmed\<rparr> in
                case write_csv lib (dollar (elems model) ''fitted.values'') of
                  Inl e \<Rightarrow> (w2, Inl e)
                | Inr txt \<Rightarrow>
                    (case write_file w2 fitted_values_file (Text txt) of
                       Inl e \<Rightarrow> (w2, Inl e)
                     | Inr w3 \<Rightarrow>
                         (case write_file w3 success_file (Text (''success'' @ newline)) of
                            Inl e \<Rightarrow> (w3, Inl e)
                          | Inr w4 \<Rightarrow> (w4, Inr ()))))))"

section \<open>\<^verbatim>\<open>plumber.R\<close>\<close>

text \<open>
  \<^verbatim>\<open>predict(mars_model, scoring_X, row.names=FALSE)\<close>: \<^verbatim>\<open>predict.mars\<close> for an object of
  class \<^verbatim>\<open>mars\<close>, one fitted value for each row of the matrix.
\<close>

fun predict_rows :: "rlib \<Rightarrow> robject \<Rightarrow> string list \<Rightarrow> real list list \<Rightarrow> error + real list" where
  "predict_rows lib m cols [] = Inr []"
| "predict_rows lib m cols (r # rs) =
     (case predict_mars lib m cols r of
        Inl e \<Rightarrow> Inl e
      | Inr p \<Rightarrow>
          (case predict_rows lib m cols rs of
             Inl e \<Rightarrow> Inl e
           | Inr ps \<Rightarrow> Inr (p # ps)))"

definition predict :: "rlib \<Rightarrow> robject \<Rightarrow> design_matrix \<Rightarrow> error + real list" where
  "predict lib m x =
     (if class_attr m = [''mars''] then predict_rows lib m (colnames x) (matrix_rows x)
      else Inl NoPredictMethod)"

text \<open>\<^verbatim>\<open>load(path)\<close> of the model file: the two objects saved by \<^verbatim>\<open>train\<close>.\<close>

definition load_artifact :: "world \<Rightarrow> error + artifact" where
  "load_artifact w =
     (case file_at w artifact_file of
        Some (RData a) \<Rightarrow> Inr a
      | Some (Text txt) \<Rightarrow> Inl (BadMagic artifact_file)
      | None \<Rightarrow> Inl (CannotOpen artifact_file))"

text \<open>The handler of \<^verbatim>\<open>/invocations\<close>: the value it returns for a request body.\<close>

definition invocations :: "rlib \<Rightarrow> world \<Rightarrow> string \<Rightarrow> error + string" where
  "invocations lib w postBody =
     (case load_artifact w of
        Inl e \<Rightarrow> Inl e
      | Inr a \<Rightarrow>
          (case read_csv lib (gsub backslash_n newline postBody) of
             Inl e \<Rightarrow> Inl e
           | Inr data \<Rightarrow>
               (case model_matrix lib data (factor_levels a) of
                  Inl e \<Rightarrow> Inl e
                | Inr scoring_X \<Rightarrow>
                    (case predict lib (mars_model a) scoring_X of
                       Inl e \<Rightarrow> Inl e
                     | Inr ps \<Rightarrow> Inr (paste_collapse (map (as_character lib) ps) '','')))))"

text \<open>
  \<^verbatim>\<open>plumber.R\<close> names no serializer, so plumber sends what a handler returns as JSON: a
  string as an array holding that string, a list of strings as an object of such arrays.
  The notebook's client reads the body with \<^verbatim>\<open>json.loads\<close>. An error in a handler is
  answered with status 500.
\<close>

datatype http_response = HTTP nat string

definition json_string :: "rlib \<Rightarrow> string \<Rightarrow> string" where
  "json_string lib s = [CHR 0x22] @ json_escape lib s @ [CHR 0x22]"

definition serializer_json :: "rlib \<Rightarrow> string \<Rightarrow> string" where
  "serializer_json lib s = ''['' @ json_string lib s @ '']''"

definition post_invocations :: "rlib \<Rightarrow> world \<Rightarrow> string \<Rightarrow> http_response" where
  "post_invocations lib w postBody =
     (case invocations lib w postBody of
        Inr s \<Rightarrow> HTTP 200 (serializer_json lib s)
      | Inl e \<Rightarrow> HTTP 500 (error_body lib e))"

text \<open>The handler of \<^verbatim>\<open>/ping\<close> returns \<^verbatim>\<open>list(status='200', code='200')\<close>.\<close>

definition post_ping :: "rlib \<Rightarrow> http_response" where
  "post_ping lib =
     HTTP 200 (''{'' @ json_string lib ''status'' @ '':'' @ serializer_json lib ''200'' @ '','' @
               json_string lib ''code'' @ '':'' @ serializer_json lib ''200'' @ ''}'')"

text \<open>
  The running server: it answers requests one after the other, while the files of the
  container may be replaced from outside between two requests. A handler keeps nothing:
  its variables are local to the call.
\<close>

datatype event = Ping | Invocations string | Replaced string rfile

fun serve_loop :: "rlib \<Rightarrow> world \<Rightarrow> event list \<Rightarrow> http_response list" where
  "serve_loop lib w [] = []"
| "serve_loop lib w (Ping # evs) = post_ping lib # serve_loop lib w evs"
| "serve_loop lib w (Invocations b # evs) = post_invocations lib w b # serve_loop lib w evs"
| "serve_loop lib w (Replaced p f # evs) = serve_loop lib (w\<lparr>files := (p, f) # files w\<rparr>) evs"

text \<open>The files as they are after a history of events.\<close>

fun world_after :: "world \<Rightarrow> event list \<Rightarrow> world" where
  "world_after w [] = w"
| "world_after w (Replaced p f # evs) = world_after (w\<lparr>files := (p, f) # files w\<rparr>) evs"
| "world_after w (ev # evs) = world_after w evs"

section \<open>\<^verbatim>\<open>serve\<close> and the start-up dispatch\<close>

text \<open>
  How the process stands: exited with a status, or listening for requests (the call
  \<^verbatim>\<open>app$run\<close> does not return). \<^verbatim>\<open>Rscript\<close> exits with status 1 when the script raises an
  error and with 0 when it reaches its end.
\<close>

datatype proc_status = Exited nat | Listening

datatype routine = Train | Serve

text \<open>\<^verbatim>\<open>serve\<close>: \<^verbatim>\<open>plumb\<close> needs the file \<^verbatim>\<open>plumber.R\<close>; then the listener runs.\<close>

definition plumber_file :: string where
  "plumber_file = paste_sep prefix_dir ''plumber.R'' ''/''"

definition serve :: "world \<Rightarrow> proc_status" where
  "serve w = (case file_at w plumber_file of None \<Rightarrow> Exited 1 | Some f \<Rightarrow> Listening)"

record run =
  final_world :: world
  invoked :: "routine list"
  status :: proc_status

text \<open>
  The start-up code of \<^verbatim>\<open>mars.R\<close>, on the value of \<^verbatim>\<open>commandArgs()\<close>: two \<^verbatim>\<open>if\<close> statements
  one after the other. An error in \<^verbatim>\<open>train()\<close> halts the script before the second.
\<close>

definition after_train :: "rlib \<Rightarrow> string list \<Rightarrow> world \<Rightarrow> run" where
  "after_train lib args w =
     (if list_ex (grepl ''train'') args then
        (case train lib w of
           (w1, Inl e) \<Rightarrow> \<lparr>final_world = w1, invoked = [Train], status = Exited 1\<rparr>
         | (w1, Inr u) \<Rightarrow> \<lparr>final_world = w1, invoked = [Train], status = Exited 0\<rparr>)
      else \<lparr>final_world = w, invoked = [], status = Exited 0\<rparr>)"

definition mars_main :: "rlib \<Rightarrow> string list \<Rightarrow> world \<Rightarrow> run" where
  "mars_main lib args w =
     (let r = after_train lib args w in
      if status r = Exited 0 \<and> list_ex (grepl ''serve'') args
      then r\<lparr>invoked := invoked r @ [Serve], status := serve (final_world r)\<rparr>
      else r)"

section \<open>A small library to run the scripts on concrete inputs\<close>

text \<open>
  The theorems below hold for every library. To evaluate the routines on concrete files
  and requests, this section gives one library over a fragment of the formats: JSON
  objects of strings without escapes or white space, comma-separated text without
  quotes, decimal numbers without exponent, and a fit that gives every column the
  coefficient one. It stands in for the R packages; nothing is claimed of it beyond the
  evaluations that name it.
\<close>

fun split_on :: "char \<Rightarrow> string \<Rightarrow> string list" where
  "split_on sep [] = [[]]"
| "split_on sep (c # cs) =
     (if c = sep then [] # split_on sep cs
      else (case split_on sep cs of
              [] \<Rightarrow> [[c]]
            | x # xs \<Rightarrow> (c # x) # xs))"

definition unquote :: "string \<Rightarrow> string option" where
  "unquote s =
     (if 2 \<le> length s \<and> hd s = CHR 0x22 \<and> last s = CHR 0x22 then Some (butlast (tl s))
      else None)"

definition parse_pair :: "string \<Rightarrow> (string \<times> string) option" where
  "parse_pair s =
     (case split_on CHR '':'' s of
        [k, v] \<Rightarrow>
          (case (unquote k, unquote v) of
             (Some k', Some v') \<Rightarrow> Some (k', v')
           | _ \<Rightarrow> None)
      | _ \<Rightarrow> None)"

fun parse_pairs :: "string list \<Rightarrow> error + (string \<times> string) list" where
  "parse_pairs [] = Inr []"
| "parse_pairs (s # ss) =
     (case parse_pair s of
        None \<Rightarrow> Inl (Lib ''read_json'')
      | Some kv \<Rightarrow>
          (case parse_pairs ss of
             Inl e \<Rightarrow> Inl e
           | Inr kvs \<Rightarrow> Inr (kv # kvs)))"

definition small_read_json :: "string \<Rightarrow> error + (string \<times> string) list" where
  "small_read_json txt =
     (if txt = ''{}'' then Inr []
      else if 2 \<le> length txt \<and> hd txt = CHR ''{'' \<and> last txt = CHR ''}''
        then parse_pairs (split_on CHR '','' (butlast (tl txt)))
      else Inl (Lib ''read_json''))"

definition digit_of :: "char \<Rightarrow> nat option" where
  "digit_of c = map_of (zip ''0123456789'' [0, 1, 2, 3, 4, 5, 6, 7, 8, 9]) c"

fun digits_value :: "string \<Rightarrow> nat \<Rightarrow> nat option" where
  "digits_value [] acc = Some acc"
| "digits_value (c # cs) acc =
     (case digit_of c of
        None \<Rightarrow> None
      | Some d \<Rightarrow> digits_value cs (10 * acc + d))"

definition unsigned_decimal :: "string \<Rightarrow> real option" where
  "unsigned_decimal s =
     (let ip = takeWhile (\<lambda>c. c \<noteq> CHR ''.'') s;
          rest = dropWhile (\<lambda>c. c \<noteq> CHR ''.'') s
      in if ip = [] then None
         else (case rest of
                 [] \<Rightarrow> map_option real (digits_value ip 0)
               | dot # fp \<Rightarrow>
                   (if fp = [] then None
                    else (case (digits_value ip 0, digits_value fp 0) of
                            (Some a, Some b) \<Rightarrow> Some (real a + real b / 10 ^ length fp)
                          | _ \<Rightarrow> None))))"

definition small_parse_number :: "string \<Rightarrow> real option" where
  "small_parse_number s =
     (case s of
        [] \<Rightarrow> None
      | c # t \<Rightarrow> (if c = CHR ''-'' then map_option uminus (unsigned_decimal t)
                  else unsigned_decimal s))"

definition small_cell :: "string \<Rightarrow> string option" where
  "small_cell s = (if s = ''NA'' then None else Some s)"

definition small_csv_scan :: "string \<Rightarrow> error + (string \<times> string option list) list" where
  "small_csv_scan txt =
     (case filter (\<lambda>l. l \<noteq> []) (split_on (CHR 0x0A) txt) of
        [] \<Rightarrow> Inl (Lib ''read.csv'')
      | h # ls \<Rightarrow>
          (let names = split_on CHR '','' h;
               rows = map (split_on CHR '','') ls
           in if \<not> list_all (\<lambda>r. length r = length names) rows then Inl (Lib ''read.csv'')
              else if rows = [] then Inr (map (\<lambda>n. (n, [])) names)
              else Inr (zip names (map (map small_cell) (transpose rows)))))"

definition small_mars :: "design_matrix \<Rightarrow> column option \<Rightarrow> real option \<Rightarrow> error + robject" where
  "small_mars x y degree =
     (case (y, degree) of
        (Some (Numeric ys), Some d) \<Rightarrow>
          (let fitted = map sum_list (matrix_rows x);
               yv = List.map_filter id ys
           in if length yv = length ys \<and> length ys = length fitted then
                Inr \<lparr>elems =
                       [(''call'', RChr [''mars'']),
                        (''degree'', RNum [d]),
                        (''coefficients'', RNum (replicate (length x) 1)),
                        (''x'', RNum (concat (map snd x))),
                        (''residuals'', RNum (map2 (-) yv fitted)),
                        (''fitted.values'', RNum fitted)],
                     class_attr = [''mars'']\<rparr>
              else Inl (Lib ''mars''))
      | _ \<Rightarrow> Inl (Lib ''mars''))"

definition small_predict_mars :: "robject \<Rightarrow> string list \<Rightarrow> real list \<Rightarrow> error + real" where
  "small_predict_mars m cols row =
     (case map_of (elems m) ''coefficients'' of
        Some (RNum cs) \<Rightarrow>
          (if length cs = length row then Inr (sum_list (map2 (*) cs row))
           else Inl (Lib ''predict.mars''))
      | _ \<Rightarrow> Inl (Lib ''predict.mars''))"

function string_of_nat :: "nat \<Rightarrow> string" where
  "string_of_nat n =
     (if n < 10 then [''0123456789'' ! n]
      else string_of_nat (n div 10) @ [''0123456789'' ! (n mod 10)])"
  by pat_completeness auto
termination
  by (relation "measure id") auto

text \<open>Whole numbers only: the concrete inputs below keep to them.\<close>

definition small_as_character :: "real \<Rightarrow> string" where
  "small_as_character x =
     (if x < 0 then ''-'' @ string_of_nat (nat \<lfloor>- x\<rfloor>) else string_of_nat (nat \<lfloor>x\<rfloor>))"

definition small_write_csv :: "rvalue option \<Rightarrow> error + string" where
  "small_write_csv v =
     (case v of
        Some (RNum xs) \<Rightarrow>
          Inr ([CHR 0x22] @ ''x'' @ [CHR 0x22] @ newline @
               concat (map (\<lambda>x. small_as_character x @ newline) xs))
      | _ \<Rightarrow> Inl (Lib ''write.csv''))"

definition small_json_escape :: "string \<Rightarrow> string" where
  "small_json_escape s =
     concat (map (\<lambda>c. if c = CHR 0x22 \<or> c = CHR 0x5C then [CHR 0x5C, c] else [c]) s)"

definition small_lib :: rlib where
  "small_lib =
     \<lparr>read_json = small_read_json,
      parse_number = small_parse_number,
      csv_scan = small_csv_scan,
      rbind = (\<lambda>ds. Inl (Lib ''rbind'')),
      model_matrix_other = (\<lambda>cs. Inl (Lib ''model.matrix'')),
      mars = small_mars,
      predict_mars = small_predict_mars,
      summary_lines = (\<lambda>m. map fst (elems m)),
      write_csv = small_write_csv,
      as_character = small_as_character,
      json_escape = small_json_escape,
      error_body = (\<lambda>e. ''500 - Internal server error'')\<rparr>"

text \<open>
  A container ready for training: hyperparameters naming the target \<open>y\<close>, one training
  file whose column \<open>grade\<close> holds the categories 1, 2 and x, the script \<^verbatim>\<open>plumber.R\<close>, and
  the directories the platform creates.
\<close>

definition json_pair :: "string \<times> string \<Rightarrow> string" where
  "json_pair kv = [CHR 0x22] @ fst kv @ [CHR 0x22] @ '':'' @ [CHR 0x22] @ snd kv @ [CHR 0x22]"

definition json_object :: "(string \<times> string) list \<Rightarrow> string" where
  "json_object kvs = ''{'' @ paste_collapse (map json_pair kvs) '','' @ ''}''"

definition hyperparameters_text :: string where
  "hyperparameters_text = json_object [(''target'', ''y''), (''degree'', ''2'')]"

definition training_text :: string where
  "training_text =
     ''y,x,grade'' @ newline @ ''1,1,1'' @ newline @ ''2,2,2'' @ newline @ ''3,3,x''"

definition container_dirs :: "string list" where
  "container_dirs =
     [''/opt/ml'', ''/opt/ml/input/config'', ''/opt/ml/input/data/train'', ''/opt/ml/model'',
      ''/opt/ml/output'', ''/opt/ml/output/data'']"

definition container :: world where
  "container =
     \<lparr>files =
        [(''/opt/ml/input/config/hyperparameters.json'', Text hyperparameters_text),
         (''/opt/ml/input/data/train/grades.csv'', Text training_text),
         (''/opt/ml/plumber.R'', Text ''# plumber.R''),
         (''/opt/ml/mars.R'', Text ''# mars.R'')],
      dirs = container_dirs,
      console = []\<rparr>"

text \<open>A container with the scripts only: no hyperparameter file, so training fails.\<close>

definition bare_container :: world where
  "bare_container =
     \<lparr>files = [(''/opt/ml/plumber.R'', Text ''# plumber.R''), (''/opt/ml/mars.R'', Text ''# mars.R'')],
      dirs = container_dirs,
      console = []\<rparr>"

text \<open>The same container after a successful run of \<^verbatim>\<open>train\<close>.\<close>

definition trained_container :: world where
  "trained_container = fst (train small_lib container)"

text \<open>The container without the directory \<^verbatim>\<open>/opt/ml/output/data\<close>.\<close>

definition no_data_dir :: world where
  "no_data_dir = container\<lparr>dirs := [''/opt/ml'', ''/opt/ml/model'', ''/opt/ml/output'']\<rparr>"

text \<open>A second model file, as another training run could leave it: every coefficient is two.\<close>

definition second_artifact :: rfile where
  "second_artifact =
     RData \<lparr>mars_model = \<lparr>elems = [(''coefficients'', RNum [2, 2, 2, 2])], class_attr = [''mars'']\<rparr>,
            factor_levels = [(''grade'', [''1'', ''2'', ''x''])]\<rparr>"

text \<open>Two request bodies: one record, and two records with escaped newlines.\<close>

definition one_record :: string where
  "one_record = ''x,grade'' @ newline @ ''5,x''"

definition two_records :: string where
  "two_records = ''x,grade'' @ backslash_n @ ''5,x'' @ backslash_n @ ''7,2''"

text \<open>A container that holds the second model file only.\<close>

definition second_container :: world where
  "second_container = bare_container\<lparr>files := (artifact_file, second_artifact) # files bare_container\<rparr>"

text \<open>What the handler computes for the body \<open>one_record\<close> in the trained container.\<close>

definition trained_artifact :: artifact where
  "trained_artifact =
     \<lparr>mars_model =
        \<lparr>elems =
           [(''call'', RChr [''mars'']), (''degree'', RNum [2]), (''coefficients'', RNum [1, 1, 1, 1])],
         class_attr = [''mars'']\<rparr>,
      factor_levels = [(''grade'', [''1'', ''2'', ''x''])]\<rparr>"

definition one_record_data :: data_frame where
  "one_record_data = [(''x'', Numeric [Some 5]), (''grade'', Factor [''x''] [Some ''x''])]"

definition one_record_matrix :: design_matrix where
  "one_record_matrix = [(''(Intercept)'', [1]), (''x'', [5]), (''grade2'', [0]), (''gradex'', [1])]"

text \<open>
  The same for the body \<open>two_records\<close>, whose records are \<open>two_lines\<close>. And a body of one
  record whose \<open>grade\<close> holds a backslash followed by n.
\<close>

definition two_lines :: "string list" where
  "two_lines = [''x,grade'', ''5,x'', ''7,2'']"

definition two_records_data :: data_frame where
  "two_records_data =
     [(''x'', Numeric [Some 5, Some 7]), (''grade'', Factor [''2'', ''x''] [Some ''x'', Some ''2''])]"

definition two_records_matrix :: design_matrix where
  "two_records_matrix =
     [(''(Intercept)'', [1, 1]), (''x'', [5, 7]), (''grade2'', [0, 1]), (''gradex'', [1, 0])]"

definition escaped_field :: string where
  "escaped_field = ''x,grade'' @ newline @ ''5,a'' @ backslash_n @ ''b''"

text \<open>
  A request whose \<open>grade\<close> is the category 1, and a container whose hyperparameters name
  \<open>degrees\<close> in place of \<open>degree\<close>.
\<close>

definition numeric_record :: string where
  "numeric_record = ''x,grade'' @ newline @ ''5,1''"

definition degrees_text :: string where
  "degrees_text = json_object [(''target'', ''y''), (''degrees'', ''3'')]"

definition degrees_container :: world where
  "degrees_container =
     container\<lparr>files := (''/opt/ml/input/config/hyperparameters.json'', Text degrees_text) # files container\<rparr>"

text \<open>
  Containers in which one step of training fails: no training file; a training file whose
  factor has a single level; a target that names no column; a degree that is not a
  number; no model directory; no output directory. And a library whose \<^verbatim>\<open>write.csv\<close>
  fails.
\<close>

definition with_file :: "world \<Rightarrow> string \<Rightarrow> string \<Rightarrow> world" where
  "with_file w p s = w\<lparr>files := (p, Text s) # files w\<rparr>"

definition no_training_file :: world where
  "no_training_file = with_file bare_container param_path hyperparameters_text"

definition one_level :: world where
  "one_level =
     with_file container ''/opt/ml/input/data/train/grades.csv''
       (''y,x,grade'' @ newline @ ''1,1,a'' @ newline @ ''2,2,a'')"

definition wrong_target :: world where
  "wrong_target = with_file container param_path (json_object [(''target'', ''z'')])"

definition bad_degree :: world where
  "bad_degree =
     with_file container param_path (json_object [(''target'', ''y''), (''degree'', ''two'')])"

definition no_model_dir :: world where
  "no_model_dir = container\<lparr>dirs := [''/opt/ml'', ''/opt/ml/output'', ''/opt/ml/output/data'']\<rparr>"

definition no_output_dir :: world where
  "no_output_dir = container\<lparr>dirs := [''/opt/ml'', ''/opt/ml/model'', ''/opt/ml/output/data'']\<rparr>"

definition failing_write_csv :: rlib where
  "failing_write_csv = small_lib\<lparr>write_csv := (\<lambda>v. Inl (Lib ''write.csv''))\<rparr>"

text \<open>The training data of the container as \<^verbatim>\<open>read.csv\<close> yields it, and hyperparameters without a degree.\<close>

definition training_frame :: data_frame where
  "training_frame =
     [(''y'', Numeric [Some 1, Some 2, Some 3]),
      (''x'', Numeric [Some 1, Some 2, Some 3]),
      (''grade'', Factor [''1'', ''2'', ''x''] [Some ''1'', Some ''2'', Some ''x''])]"

definition no_degree :: world where
  "no_degree = with_file container param_path (json_object [(''target'', ''y'')])"

section \<open>Facts about the primitives\<close>

lemma grepl_sublist: "grepl pat s = sublist pat s"
  by (induction s) (auto simp: sublist_Cons_right)

lemma gsub_bn_Nil: "gsub backslash_n newline [] = []"
  by simp

lemma gsub_bn_single: "gsub backslash_n newline [c] = [c]"
  by (simp add: backslash_n_def)

lemma gsub_bn_Cons2:
  "gsub backslash_n newline (c # d # cs) =
     (if c = CHR 0x5C \<and> d = CHR ''n'' then CHR 0x0A # gsub backslash_n newline cs
      else c # gsub backslash_n newline (d # cs))"
  by (simp add: backslash_n_def newline_def)

declare gsub.simps [simp del]

lemma sublist_bn_Cons2:
  "sublist backslash_n (c # d # cs) =
     ((c = CHR 0x5C \<and> d = CHR ''n'') \<or> sublist backslash_n (d # cs))"
  by (auto simp: backslash_n_def sublist_Cons_right)

lemma sublist_bn_short: "\<not> sublist backslash_n []" "\<not> sublist backslash_n [c]"
  by (simp_all add: backslash_n_def sublist_Cons_right)

lemma gsub_bn_head:
  "gsub backslash_n newline (d # cs) = x # r \<Longrightarrow> x = d \<or> x = CHR 0x0A"
  by (cases cs) (auto simp: gsub_bn_single gsub_bn_Cons2 split: if_splits)

lemma gsub_bn_nonempty: "gsub backslash_n newline (d # cs) \<noteq> []"
  by (cases cs) (simp_all add: gsub_bn_single gsub_bn_Cons2)

text \<open>The rewritten text holds no backslash followed by n.\<close>

lemma gsub_bn_free: "\<not> sublist backslash_n (gsub backslash_n newline s)"
proof (induction s rule: length_induct)
  case (1 s)
  show ?case
  proof (cases s)
    case Nil
    then show ?thesis using sublist_bn_short(1) by (simp add: gsub_bn_Nil)
  next
    case (Cons c t)
    note s = this
    show ?thesis
    proof (cases t)
      case Nil
      with s show ?thesis by (simp add: gsub_bn_single sublist_bn_short)
    next
      case (Cons d cs)
      show ?thesis
      proof (cases "c = CHR 0x5C \<and> d = CHR ''n''")
        case True
        have "\<not> sublist backslash_n (gsub backslash_n newline cs)"
          using 1 s Cons by simp
        then show ?thesis
          using True s Cons
          by (cases "gsub backslash_n newline cs")
             (simp_all add: gsub_bn_Cons2 sublist_bn_short sublist_bn_Cons2)
      next
        case False
        have ih: "\<not> sublist backslash_n (gsub backslash_n newline (d # cs))"
          using 1 s Cons by simp
        obtain x r where xr: "gsub backslash_n newline (d # cs) = x # r"
          using gsub_bn_nonempty [of d cs] by (auto simp: neq_Nil_conv)
        then have "x = d \<or> x = CHR 0x0A" by (rule gsub_bn_head)
        then show ?thesis
          using False s Cons ih xr by (auto simp: gsub_bn_Cons2 sublist_bn_Cons2)
      qed
    qed
  qed
qed

text \<open>A text without the sequence is left as it is.\<close>

lemma gsub_bn_id: "\<not> sublist backslash_n s \<Longrightarrow> gsub backslash_n newline s = s"
proof (induction s)
  case Nil
  then show ?case by (simp add: gsub_bn_Nil)
next
  case (Cons c t)
  then show ?case
    by (cases t) (auto simp: gsub_bn_single gsub_bn_Cons2 sublist_bn_Cons2)
qed

text \<open>The leftmost occurrence becomes a newline, and the rewriting goes on behind it.\<close>

lemma gsub_bn_leftmost:
  "\<not> sublist backslash_n xs \<Longrightarrow>
   gsub backslash_n newline (xs @ backslash_n @ ys) = xs @ newline @ gsub backslash_n newline ys"
proof (induction xs)
  case Nil
  then show ?case
    using gsub_bn_Cons2 [of "CHR 0x5C" "CHR ''n''" ys] by (simp add: backslash_n_def newline_def)
next
  case (Cons c t)
  show ?case
  proof (cases t)
    case Nil
    then show ?thesis
      using gsub_bn_Cons2 [of c "CHR 0x5C" "CHR ''n'' # ys"]
        gsub_bn_Cons2 [of "CHR 0x5C" "CHR ''n''" ys]
      by (simp add: backslash_n_def newline_def)
  next
    case (Cons d cs)
    then show ?thesis
      using Cons.IH Cons.prems gsub_bn_Cons2 [of c d "cs @ backslash_n @ ys"]
      by (auto simp: sublist_bn_Cons2)
  qed
qed

section \<open>What \<^verbatim>\<open>train\<close> writes\<close>

lemma write_file_Inr:
  "write_file w p f = Inr w' \<Longrightarrow> w' = w\<lparr>files := (p, f) # files w\<rparr> \<and> dirname p \<in> set (dirs w)"
  by (auto simp: write_file_def split: if_splits)

lemma file_at_console [simp]: "file_at (w\<lparr>console := c\<rparr>) q = file_at w q"
  by (simp add: file_at_def)

lemma output_paths_distinct:
  "artifact_file \<noteq> fitted_values_file" "artifact_file \<noteq> success_file"
  "fitted_values_file \<noteq> success_file"
  by (simp_all add: artifact_file_def fitted_values_file_def success_file_def model_path_def
      output_path_def prefix_dir_def paste_sep_def)

text \<open>The world a successful run leaves, file by file.\<close>

lemma train_success_files:
  assumes "train lib w = (w', Inr u)"
  shows "\<exists>model levels txt.
           fit lib w = Inr (model, levels) \<and>
           write_csv lib (dollar (elems model) ''fitted.values'') = Inr txt \<and>
           files w' =
             [(success_file, Text (''success'' @ newline)),
              (fitted_values_file, Text txt),
              (artifact_file, RData \<lparr>mars_model = trim_model model, factor_levels = levels\<rparr>)]
             @ files w \<and>
           dirs w' = dirs w \<and>
           console w' = console w @ summary_lines lib (trim_model model)"
  using assms
  by (auto simp: train_def Let_def split: sum.splits prod.splits dest!: write_file_Inr)

lemma train_failure_files:
  assumes "train lib w = (w', Inl e)"
  shows "(fit lib w = Inl e \<and> w' = w) \<or>
         (\<exists>model levels. fit lib w = Inr (model, levels) \<and>
            (w' = w \<or>
             (files w' =
                [(artifact_file, RData \<lparr>mars_model = trim_model model, factor_levels = levels\<rparr>)]
                @ files w \<and> dirs w' = dirs w) \<or>
             (\<exists>txt. write_csv lib (dollar (elems model) ''fitted.values'') = Inr txt \<and>
                files w' =
                  [(fitted_values_file, Text txt),
                   (artifact_file, RData \<lparr>mars_model = trim_model model, factor_levels = levels\<rparr>)]
                  @ files w \<and> dirs w' = dirs w)))"
  using assms
  by (auto simp: train_def Let_def split: sum.splits prod.splits dest!: write_file_Inr)


lemma container_trains: "train small_lib container = (trained_container, Inr ())"
  unfolding trained_container_def by code_simp

lemma bare_container_fails:
  "train small_lib bare_container = (bare_container, Inl (CannotOpen param_path))"
  by code_simp

lemma list_ex_grepl: "list_ex (grepl pat) args = (\<exists>a\<in>set args. sublist pat a)"
  by (simp add: list_ex_iff grepl_sublist)

lemma after_train_cases:
  "after_train lib args w =
     (if list_ex (grepl ''train'') args then
        \<lparr>final_world = fst (train lib w), invoked = [Train],
         status = (if snd (train lib w) = Inr () then Exited 0 else Exited 1)\<rparr>
      else \<lparr>final_world = w, invoked = [], status = Exited 0\<rparr>)"
  by (auto simp: after_train_def split: prod.splits sum.splits)

section \<open>The success marker (C6)\<close>

text \<open>
  C6, as the code has it. After a successful training run the success marker file holds
  the line \<^verbatim>\<open>success\<close>: the seven letters and a newline, eight bytes, as
  \<^verbatim>\<open>write('success', file=...)\<close> writes them. The file is not empty.
\<close>

theorem success_marker_content:
  assumes "train lib w = (w', Inr u)"
  shows "file_at w' success_file = Some (Text (''success'' @ newline)) \<and>
         length (''success'' @ newline) = 8"
proof -
  from train_success_files [OF assms] obtain model levels csv where
    "files w' =
       [(success_file, Text (''success'' @ newline)),
        (fitted_values_file, Text csv),
        (artifact_file, RData \<lparr>mars_model = trim_model model, factor_levels = levels\<rparr>)]
       @ files w"
    by blast
  then have "file_at w' success_file = Some (Text (''success'' @ newline))"
    by (simp add: file_at_def)
  then show ?thesis by (simp add: newline_def)
qed

theorem success_marker_content_witness:
  "train small_lib container = (trained_container, Inr ()) \<and>
   file_at trained_container success_file = Some (Text (''success'' @ newline))"
  using success_marker_content [OF container_trains] container_trains by simp

text \<open>
  The claim as stated, a marker of zero bytes, fails on the container above: training
  succeeds and the marker is not the empty file.
\<close>

theorem success_marker_not_empty:
  "snd (train small_lib container) = Inr () \<and>
   file_at (fst (train small_lib container)) success_file \<noteq> Some (Text [])"
  by code_simp

section \<open>The persisted model (C7)\<close>



section \<open>Failure of training (C8)\<close>

text \<open>
  C8. An error raised in any step of the training routine ends the routine with that
  error: reading the hyperparameters, loading the data, building the design matrix,
  taking the target column, fitting, saving the model, writing the fitted values and
  writing the marker. The routine has no handler: the world it leaves is the one before
  the failing step, so nothing is written after the failure. Whenever the routine fails,
  the success marker is as it was before the run, and the process started for training
  runs no other routine and exits with status 1.
\<close>

theorem training_failure:
  "(read_params lib w = Inl e \<longrightarrow> train lib w = (w, Inl e)) \<and>
   (read_params lib w = Inr ps \<and> load_training_data lib w = Inl e \<longrightarrow>
      train lib w = (w, Inl e)) \<and>
   (read_params lib w = Inr ps \<and> load_training_data lib w = Inr d \<and>
    training_matrix lib d (dollar ps ''target'') = Inl e \<longrightarrow>
      train lib w = (w, Inl e)) \<and>
   (read_params lib w = Inr ps \<and> load_training_data lib w = Inr d \<and>
    training_matrix lib d (dollar ps ''target'') = Inr x \<and>
    target_column d (dollar ps ''target'') = Inl e \<longrightarrow>
      train lib w = (w, Inl e)) \<and>
   (read_params lib w = Inr ps \<and> load_training_data lib w = Inr d \<and>
    training_matrix lib d (dollar ps ''target'') = Inr x \<and>
    target_column d (dollar ps ''target'') = Inr y \<and>
    mars lib x y (degree_of lib ps) = Inl e \<longrightarrow>
      train lib w = (w, Inl e)) \<and>
   (fit lib w = Inr (model, levels) \<and>
    write_file w artifact_file
      (RData \<lparr>mars_model = trim_model model, factor_levels = levels\<rparr>) = Inl e \<longrightarrow>
      train lib w = (w, Inl e)) \<and>
   (fit lib w = Inr (model, levels) \<and>
    write_file w artifact_file
      (RData \<lparr>mars_model = trim_model model, factor_levels = levels\<rparr>) = Inr w1 \<and>
    write_csv lib (dollar (elems model) ''fitted.values'') = Inl e \<longrightarrow>
      train lib w = (w1\<lparr>console := console w1 @ summary_lines lib (trim_model model)\<rparr>, Inl e)) \<and>
   (fit lib w = Inr (model, levels) \<and>
    write_file w artifact_file
      (RData \<lparr>mars_model = trim_model model, factor_levels = levels\<rparr>) = Inr w1 \<and>
    write_csv lib (dollar (elems model) ''fitted.values'') = Inr csv \<and>
    write_file (w1\<lparr>console := console w1 @ summary_lines lib (trim_model model)\<rparr>)
      fitted_values_file (Text csv) = Inl e \<longrightarrow>
      train lib w = (w1\<lparr>console := console w1 @ summary_lines lib (trim_model model)\<rparr>, Inl e)) \<and>
   (fit lib w = Inr (model, levels) \<and>
    write_file w artifact_file
      (RData \<lparr>mars_model = trim_model model, factor_levels = levels\<rparr>) = Inr w1 \<and>
    write_csv lib (dollar (elems model) ''fitted.values'') = Inr csv \<and>
    write_file (w1\<lparr>console := console w1 @ summary_lines lib (trim_model model)\<rparr>)
      fitted_values_file (Text csv) = Inr w3 \<and>
    write_file w3 success_file (Text (''success'' @ newline)) = Inl e \<longrightarrow>
      train lib w = (w3, Inl e)) \<and>
   (train lib w = (w', Inl e) \<longrightarrow>
      file_at w' success_file = file_at w success_file \<and>
      (list_ex (grepl ''train'') args \<longrightarrow>
         mars_main lib args w = \<lparr>final_world = w', invoked = [Train], status = Exited 1\<rparr>))"
proof -
  have stages:
    "read_params lib w = Inl e \<longrightarrow> train lib w = (w, Inl e)"
    "read_params lib w = Inr ps \<and> load_training_data lib w = Inl e \<longrightarrow> train lib w = (w, Inl e)"
    "read_params lib w = Inr ps \<and> load_training_data lib w = Inr d \<and>
       training_matrix lib d (dollar ps ''target'') = Inl e \<longrightarrow> train lib w = (w, Inl e)"
    "read_params lib w = Inr ps \<and> load_training_data lib w = Inr d \<and>
       training_matrix lib d (dollar ps ''target'') = Inr x \<and>
       target_column d (dollar ps ''target'') = Inl e \<longrightarrow> train lib w = (w, Inl e)"
    "read_params lib w = Inr ps \<and> load_training_data lib w = Inr d \<and>
       training_matrix lib d (dollar ps ''target'') = Inr x \<and>
       target_column d (dollar ps ''target'') = Inr y \<and>
       mars lib x y (degree_of lib ps) = Inl e \<longrightarrow> train lib w = (w, Inl e)"
    by (simp_all add: train_def fit_def Let_def)
  have writes:
    "fit lib w = Inr (model, levels) \<and>
     write_file w artifact_file
       (RData \<lparr>mars_model = trim_model model, factor_levels = levels\<rparr>) = Inl e \<longrightarrow>
       train lib w = (w, Inl e)"
    "fit lib w = Inr (model, levels) \<and>
     write_file w artifact_file
       (RData \<lparr>mars_model = trim_model model, factor_levels = levels\<rparr>) = Inr w1 \<and>
     write_csv lib (dollar (elems model) ''fitted.values'') = Inl e \<longrightarrow>
       train lib w = (w1\<lparr>console := console w1 @ summary_lines lib (trim_model model)\<rparr>, Inl e)"
    "fit lib w = Inr (model, levels) \<and>
     write_file w artifact_file
       (RData \<lparr>mars_model = trim_model model, factor_levels = levels\<rparr>) = Inr w1 \<and>
     write_csv lib (dollar (elems model) ''fitted.values'') = Inr csv \<and>
     write_file (w1\<lparr>console := console w1 @ summary_lines lib (trim_model model)\<rparr>)
       fitted_values_file (Text csv) = Inl e \<longrightarrow>
       train lib w = (w1\<lparr>console := console w1 @ summary_lines lib (trim_model model)\<rparr>, Inl e)"
    "fit lib w = Inr (model, levels) \<and>
     write_file w artifact_file
       (RData \<lparr>mars_model = trim_model model, factor_levels = levels\<rparr>) = Inr w1 \<and>
     write_csv lib (dollar (elems model) ''fitted.values'') = Inr csv \<and>
     write_file (w1\<lparr>console := console w1 @ summary_lines lib (trim_model model)\<rparr>)
       fitted_values_file (Text csv) = Inr w3 \<and>
     write_file w3 success_file (Text (''success'' @ newline)) = Inl e \<longrightarrow>
       train lib w = (w3, Inl e)"
    by (simp_all add: train_def Let_def)
  have marker: "file_at w' success_file = file_at w success_file" if t: "train lib w = (w', Inl e)"
  proof -
    from train_failure_files [OF t] consider
      "w' = w"
      | a where "files w' = [(artifact_file, a)] @ files w"
      | a b where "files w' = [(fitted_values_file, b), (artifact_file, a)] @ files w"
      by blast
    then show ?thesis
    proof cases
      case 1
      then show ?thesis by simp
    next
      case 2
      then show ?thesis
        using output_paths_distinct(2) by (simp add: file_at_def)
    next
      case 3
      then show ?thesis
        using output_paths_distinct(2,3) by (simp add: file_at_def)
    qed
  qed
  have exit: "mars_main lib args w = \<lparr>final_world = w', invoked = [Train], status = Exited 1\<rparr>"
    if "train lib w = (w', Inl e)" "list_ex (grepl ''train'') args"
    using that by (simp add: mars_main_def after_train_cases Let_def)
  have last:
    "train lib w = (w', Inl e) \<longrightarrow>
       file_at w' success_file = file_at w success_file \<and>
       (list_ex (grepl ''train'') args \<longrightarrow>
          mars_main lib args w = \<lparr>final_world = w', invoked = [Train], status = Exited 1\<rparr>)"
    using marker exit by blast
  from stages writes last show ?thesis
    by (intro conjI)
qed

theorem training_failure_witness:
  "train small_lib bare_container = (bare_container, Inl (CannotOpen param_path)) \<and>
   train small_lib no_training_file = (no_training_file, Inl NoData) \<and>
   train small_lib one_level = (one_level, Inl (Contrasts ''grade'')) \<and>
   train small_lib wrong_target = (wrong_target, Inl (UndefinedColumns ''z'')) \<and>
   train small_lib bad_degree = (bad_degree, Inl (Lib ''mars'')) \<and>
   train small_lib no_model_dir = (no_model_dir, Inl (CannotOpen artifact_file)) \<and>
   snd (train failing_write_csv container) = Inl (Lib ''write.csv'') \<and>
   snd (train small_lib no_data_dir) = Inl (CannotOpen fitted_values_file) \<and>
   snd (train small_lib no_output_dir) = Inl (CannotOpen success_file) \<and>
   file_at (fst (train small_lib no_output_dir)) artifact_file \<noteq> None \<and>
   file_at (fst (train small_lib no_output_dir)) fitted_values_file \<noteq> None \<and>
   file_at (fst (train small_lib no_output_dir)) success_file = None \<and>
   mars_main small_lib [''R'', ''train''] no_output_dir =
     \<lparr>final_world = fst (train small_lib no_output_dir), invoked = [Train], status = Exited 1\<rparr>"
proof -
  have h1: "read_params small_lib bare_container = Inl (CannotOpen param_path)"
    by code_simp
  have r1: "train small_lib bare_container = (bare_container, Inl (CannotOpen param_path))"
    by (rule training_failure [where lib = small_lib and w = bare_container, THEN conjunct1, THEN mp, OF h1])
  let ?ps2 = "projr (read_params small_lib no_training_file)"
  have h2: "read_params small_lib no_training_file = Inr ?ps2 \<and>
      load_training_data small_lib no_training_file = Inl NoData"
    by code_simp
  have r2: "train small_lib no_training_file = (no_training_file, Inl NoData)"
    by (rule training_failure [where lib = small_lib and w = no_training_file, THEN conjunct2, THEN conjunct1, THEN mp, OF h2])
  let ?ps3 = "projr (read_params small_lib one_level)"
  let ?d3 = "projr (load_training_data small_lib one_level)"
  have h3: "read_params small_lib one_level = Inr ?ps3 \<and>
      load_training_data small_lib one_level = Inr ?d3 \<and>
      training_matrix small_lib ?d3 (dollar ?ps3 ''target'') = Inl (Contrasts ''grade'')"
    by code_simp
  have r3: "train small_lib one_level = (one_level, Inl (Contrasts ''grade''))"
    by (rule training_failure [where lib = small_lib and w = one_level, THEN conjunct2, THEN conjunct2, THEN conjunct1, THEN mp, OF h3])
  let ?ps4 = "projr (read_params small_lib wrong_target)"
  let ?d4 = "projr (load_training_data small_lib wrong_target)"
  let ?x4 = "projr (training_matrix small_lib ?d4 (dollar ?ps4 ''target''))"
  have h4: "read_params small_lib wrong_target = Inr ?ps4 \<and>
      load_training_data small_lib wrong_target = Inr ?d4 \<and>
      training_matrix small_lib ?d4 (dollar ?ps4 ''target'') = Inr ?x4 \<and>
      target_column ?d4 (dollar ?ps4 ''target'') = Inl (UndefinedColumns ''z'')"
    by code_simp
  have r4: "train small_lib wrong_target = (wrong_target, Inl (UndefinedColumns ''z''))"
    by (rule training_failure [where lib = small_lib and w = wrong_target, THEN conjunct2, THEN conjunct2, THEN conjunct2, THEN conjunct1, THEN mp, OF h4])
  let ?ps5 = "projr (read_params small_lib bad_degree)"
  let ?d5 = "projr (load_training_data small_lib bad_degree)"
  let ?x5 = "projr (training_matrix small_lib ?d5 (dollar ?ps5 ''target''))"
  let ?y5 = "projr (target_column ?d5 (dollar ?ps5 ''target''))"
  have h5: "read_params small_lib bad_degree = Inr ?ps5 \<and>
      load_training_data small_lib bad_degree = Inr ?d5 \<and>
      training_matrix small_lib ?d5 (dollar ?ps5 ''target'') = Inr ?x5 \<and>
      target_column ?d5 (dollar ?ps5 ''target'') = Inr ?y5 \<and>
      mars small_lib ?x5 ?y5 (degree_of small_lib ?ps5) = Inl (Lib ''mars'')"
    by code_simp
  have r5: "train small_lib bad_degree = (bad_degree, Inl (Lib ''mars''))"
    by (rule training_failure [where lib = small_lib and w = bad_degree, THEN conjunct2, THEN conjunct2, THEN conjunct2, THEN conjunct2, THEN conjunct1, THEN mp, OF h5])
  let ?m6 = "fst (projr (fit small_lib no_model_dir))"
  let ?l6 = "snd (projr (fit small_lib no_model_dir))"
  have h6: "fit small_lib no_model_dir = Inr (?m6, ?l6) \<and>
      write_file no_model_dir artifact_file
        (RData \<lparr>mars_model = trim_model ?m6, factor_levels = ?l6\<rparr>) = Inl (CannotOpen artifact_file)"
    by code_simp
  have r6: "train small_lib no_model_dir = (no_model_dir, Inl (CannotOpen artifact_file))"
    by (rule training_failure [where lib = small_lib and w = no_model_dir, THEN conjunct2, THEN conjunct2, THEN conjunct2, THEN conjunct2, THEN conjunct2, THEN conjunct1, THEN mp, OF h6])
  let ?m7 = "fst (projr (fit failing_write_csv container))"
  let ?l7 = "snd (projr (fit failing_write_csv container))"
  let ?w7 = "projr (write_file container artifact_file
      (RData \<lparr>mars_model = trim_model ?m7, factor_levels = ?l7\<rparr>))"
  have h7: "fit failing_write_csv container = Inr (?m7, ?l7) \<and>
      write_file container artifact_file
        (RData \<lparr>mars_model = trim_model ?m7, factor_levels = ?l7\<rparr>) = Inr ?w7 \<and>
      write_csv failing_write_csv (dollar (elems ?m7) ''fitted.values'') = Inl (Lib ''write.csv'')"
    by code_simp
  have "train failing_write_csv container =
      (?w7\<lparr>console := console ?w7 @ summary_lines failing_write_csv (trim_model ?m7)\<rparr>,
       Inl (Lib ''write.csv''))"
    by (rule training_failure [where lib = failing_write_csv and w = container, THEN conjunct2, THEN conjunct2, THEN conjunct2, THEN conjunct2, THEN conjunct2, THEN conjunct2, THEN conjunct1, THEN mp, OF h7])
  then have r7: "snd (train failing_write_csv container) = Inl (Lib ''write.csv'')"
    by (simp only: snd_conv)
  let ?m8 = "fst (projr (fit small_lib no_data_dir))"
  let ?l8 = "snd (projr (fit small_lib no_data_dir))"
  let ?w8 = "projr (write_file no_data_dir artifact_file
      (RData \<lparr>mars_model = trim_model ?m8, factor_levels = ?l8\<rparr>))"
  let ?c8 = "projr (write_csv small_lib (dollar (elems ?m8) ''fitted.values''))"
  have h8: "fit small_lib no_data_dir = Inr (?m8, ?l8) \<and>
      write_file no_data_dir artifact_file
        (RData \<lparr>mars_model = trim_model ?m8, factor_levels = ?l8\<rparr>) = Inr ?w8 \<and>
      write_csv small_lib (dollar (elems ?m8) ''fitted.values'') = Inr ?c8 \<and>
      write_file (?w8\<lparr>console := console ?w8 @ summary_lines small_lib (trim_model ?m8)\<rparr>)
        fitted_values_file (Text ?c8) = Inl (CannotOpen fitted_values_file)"
    by code_simp
  have "train small_lib no_data_dir =
      (?w8\<lparr>console := console ?w8 @ summary_lines small_lib (trim_model ?m8)\<rparr>,
       Inl (CannotOpen fitted_values_file))"
    by (rule training_failure [where lib = small_lib and w = no_data_dir, THEN conjunct2, THEN conjunct2, THEN conjunct2, THEN conjunct2, THEN conjunct2, THEN conjunct2, THEN conjunct2, THEN conjunct1, THEN mp, OF h8])
  then have r8: "snd (train small_lib no_data_dir) = Inl (CannotOpen fitted_values_file)"
    by (simp only: snd_conv)
  let ?m9 = "fst (projr (fit small_lib no_output_dir))"
  let ?l9 = "snd (projr (fit small_lib no_output_dir))"
  let ?w9 = "projr (write_file no_output_dir artifact_file
      (RData \<lparr>mars_model = trim_model ?m9, factor_levels = ?l9\<rparr>))"
  let ?c9 = "projr (write_csv small_lib (dollar (elems ?m9) ''fitted.values''))"
  let ?v9 = "projr (write_file (?w9\<lparr>console := console ?w9 @ summary_lines small_lib (trim_model ?m9)\<rparr>)
      fitted_values_file (Text ?c9))"
  have h9: "fit small_lib no_output_dir = Inr (?m9, ?l9) \<and>
      write_file no_output_dir artifact_file
        (RData \<lparr>mars_model = trim_model ?m9, factor_levels = ?l9\<rparr>) = Inr ?w9 \<and>
      write_csv small_lib (dollar (elems ?m9) ''fitted.values'') = Inr ?c9 \<and>
      write_file (?w9\<lparr>console := console ?w9 @ summary_lines small_lib (trim_model ?m9)\<rparr>)
        fitted_values_file (Text ?c9) = Inr ?v9 \<and>
      write_file ?v9 success_file (Text (''success'' @ newline)) = Inl (CannotOpen success_file)"
    by code_simp
  have t9: "train small_lib no_output_dir = (?v9, Inl (CannotOpen success_file))"
    by (rule training_failure [where lib = small_lib and w = no_output_dir, THEN conjunct2, THEN conjunct2, THEN conjunct2, THEN conjunct2, THEN conjunct2, THEN conjunct2, THEN conjunct2, THEN conjunct2, THEN conjunct1, THEN mp, OF h9])
  then have r9: "snd (train small_lib no_output_dir) = Inl (CannotOpen success_file)"
    by (simp only: snd_conv)
  from t9 have f9: "fst (train small_lib no_output_dir) = ?v9"
    by (simp only: fst_conv)
  have t10: "train small_lib no_output_dir =
      (fst (train small_lib no_output_dir), Inl (CannotOpen success_file))"
    using r9 by (simp add: prod_eq_iff)
  note last = training_failure [where lib = small_lib and w = no_output_dir
      and w' = "fst (train small_lib no_output_dir)" and e = "CannotOpen success_file"
      and args = "[''R'', ''train'']", THEN conjunct2, THEN conjunct2, THEN conjunct2, THEN conjunct2, THEN conjunct2, THEN conjunct2, THEN conjunct2, THEN conjunct2, THEN conjunct2, THEN mp, OF t10]
  have g: "list_ex (grepl ''train'') [''R'', ''train'']"
    by code_simp
  have "file_at (fst (train small_lib no_output_dir)) success_file = file_at no_output_dir success_file"
    by (rule last [THEN conjunct1])
  moreover have "file_at no_output_dir success_file = None"
    by code_simp
  ultimately have s9: "file_at (fst (train small_lib no_output_dir)) success_file = None"
    by (rule trans)
  have m9: "mars_main small_lib [''R'', ''train''] no_output_dir =
      \<lparr>final_world = fst (train small_lib no_output_dir), invoked = [Train], status = Exited 1\<rparr>"
    by (rule last [THEN conjunct2, THEN mp, OF g])
  have a9: "file_at (fst (train small_lib no_output_dir)) artifact_file \<noteq> None"
    by code_simp
  have b9: "file_at (fst (train small_lib no_output_dir)) fitted_values_file \<noteq> None"
    by code_simp
  from r1 r2 r3 r4 r5 r6 r7 r8 r9 a9 b9 s9 m9 show ?thesis
    by (intro conjI)
qed

section \<open>The start-up dispatch (C2, C10)\<close>

text \<open>
  C2, as the code has it. With a training indicator among the arguments, the training
  routine runs first; when it raises an error the process exits with status 1 and no
  other routine runs; when it succeeds and there is no serving indicator the process
  exits with status 0. With a serving indicator, and training either not selected or
  successful, the serving routine runs (after training if both ran); it does not return
  once \<^verbatim>\<open>plumber.R\<close> is there to load. With neither indicator no routine runs and the process
  exits with status 0.
\<close>

theorem entrypoint_dispatch:
  "(list_ex (grepl ''train'') args \<and> snd (train lib w) \<noteq> Inr () \<longrightarrow>
      mars_main lib args w =
        \<lparr>final_world = fst (train lib w), invoked = [Train], status = Exited 1\<rparr>) \<and>
   (list_ex (grepl ''train'') args \<and> snd (train lib w) = Inr () \<and>
    \<not> list_ex (grepl ''serve'') args \<longrightarrow>
      mars_main lib args w =
        \<lparr>final_world = fst (train lib w), invoked = [Train], status = Exited 0\<rparr>) \<and>
   (list_ex (grepl ''train'') args \<and> snd (train lib w) = Inr () \<and>
    list_ex (grepl ''serve'') args \<longrightarrow>
      mars_main lib args w =
        \<lparr>final_world = fst (train lib w), invoked = [Train, Serve],
         status = serve (fst (train lib w))\<rparr>) \<and>
   (\<not> list_ex (grepl ''train'') args \<and> list_ex (grepl ''serve'') args \<longrightarrow>
      mars_main lib args w = \<lparr>final_world = w, invoked = [Serve], status = serve w\<rparr>) \<and>
   (\<not> list_ex (grepl ''train'') args \<and> \<not> list_ex (grepl ''serve'') args \<longrightarrow>
      mars_main lib args w = \<lparr>final_world = w, invoked = [], status = Exited 0\<rparr>) \<and>
   (file_at w0 plumber_file \<noteq> None \<longrightarrow> serve w0 = Listening)"
  by (auto simp: mars_main_def after_train_cases Let_def serve_def split: option.splits)

theorem entrypoint_dispatch_witness:
  "mars_main small_lib [''R'', ''train''] container =
     \<lparr>final_world = trained_container, invoked = [Train], status = Exited 0\<rparr> \<and>
   mars_main small_lib [''R'', ''train'', ''serve''] container =
     \<lparr>final_world = trained_container, invoked = [Train, Serve], status = Listening\<rparr> \<and>
   mars_main small_lib [''R'', ''train'', ''serve''] bare_container =
     \<lparr>final_world = bare_container, invoked = [Train], status = Exited 1\<rparr> \<and>
   mars_main small_lib [''R'', ''serve''] trained_container =
     \<lparr>final_world = trained_container, invoked = [Serve], status = Listening\<rparr> \<and>
   mars_main small_lib [''R''] container =
     \<lparr>final_world = container, invoked = [], status = Exited 0\<rparr>"
proof -
  have ok: "snd (train small_lib container) = Inr ()" "fst (train small_lib container) = trained_container"
    using container_trains by simp_all
  have bad: "snd (train small_lib bare_container) \<noteq> Inr ()" "fst (train small_lib bare_container) = bare_container"
    using bare_container_fails by simp_all
  have g:
    "list_ex (grepl ''train'') [''R'', ''train'']" "\<not> list_ex (grepl ''serve'') [''R'', ''train'']"
    "list_ex (grepl ''train'') [''R'', ''train'', ''serve'']"
    "list_ex (grepl ''serve'') [''R'', ''train'', ''serve'']"
    "\<not> list_ex (grepl ''train'') [''R'', ''serve'']" "list_ex (grepl ''serve'') [''R'', ''serve'']"
    "\<not> list_ex (grepl ''train'') [''R'']" "\<not> list_ex (grepl ''serve'') [''R'']"
    by code_simp+
  have p: "file_at trained_container plumber_file \<noteq> None"
    by code_simp
  from entrypoint_dispatch [of "[''R'']" small_lib container trained_container] p
  have l: "serve trained_container = Listening"
    by blast
  from entrypoint_dispatch [of "[''R'', ''train'']" small_lib container container] ok g
  have a: "mars_main small_lib [''R'', ''train''] container =
      \<lparr>final_world = trained_container, invoked = [Train], status = Exited 0\<rparr>"
    by simp
  from entrypoint_dispatch [of "[''R'', ''train'', ''serve'']" small_lib container container] ok g l
  have b: "mars_main small_lib [''R'', ''train'', ''serve''] container =
      \<lparr>final_world = trained_container, invoked = [Train, Serve], status = Listening\<rparr>"
    by simp
  from entrypoint_dispatch [of "[''R'', ''train'', ''serve'']" small_lib bare_container container] bad g
  have c: "mars_main small_lib [''R'', ''train'', ''serve''] bare_container =
      \<lparr>final_world = bare_container, invoked = [Train], status = Exited 1\<rparr>"
    by simp
  from entrypoint_dispatch [of "[''R'', ''serve'']" small_lib trained_container container] g l
  have d: "mars_main small_lib [''R'', ''serve''] trained_container =
      \<lparr>final_world = trained_container, invoked = [Serve], status = Listening\<rparr>"
    by simp
  from entrypoint_dispatch [of "[''R'']" small_lib container container] g
  have e: "mars_main small_lib [''R''] container =
      \<lparr>final_world = container, invoked = [], status = Exited 0\<rparr>"
    by simp
  from a b c d e show ?thesis
    by (intro conjI)
qed

text \<open>
  The claim as stated, that with both indicators both routines run, fails where training
  raises an error: in the container without a hyperparameter file the process started
  with both indicators runs the training routine only and exits with status 1.
\<close>

theorem both_indicators_training_fails:
  "list_ex (grepl ''train'') [''train'', ''serve''] \<and>
   list_ex (grepl ''serve'') [''train'', ''serve''] \<and>
   invoked (mars_main small_lib [''train'', ''serve''] bare_container) = [Train] \<and>
   status (mars_main small_lib [''train'', ''serve''] bare_container) = Exited 1"
  by code_simp

text \<open>
  C10, as the code has it. The modes are found by substring search: the training routine
  runs exactly when some argument contains \<^verbatim>\<open>train\<close>; the serving routine runs exactly when
  some argument contains \<^verbatim>\<open>serve\<close> and the training routine, if it was selected, ended
  without an error. So an argument such as \<^verbatim>\<open>restrain\<close> or \<^verbatim>\<open>observer\<close> selects a routine.
\<close>

theorem substring_dispatch:
  "(Train \<in> set (invoked (mars_main lib args w)) \<longleftrightarrow> (\<exists>a\<in>set args. sublist ''train'' a)) \<and>
   (Serve \<in> set (invoked (mars_main lib args w)) \<longleftrightarrow>
      (\<exists>a\<in>set args. sublist ''serve'' a) \<and>
      ((\<exists>a\<in>set args. sublist ''train'' a) \<longrightarrow> snd (train lib w) = Inr ()))"
  unfolding list_ex_grepl [symmetric]
  by (auto simp: mars_main_def after_train_cases Let_def)

theorem substring_dispatch_witness:
  "(\<exists>a\<in>set [''restrain'']. sublist ''train'' a) \<and>
   Train \<in> set (invoked (mars_main small_lib [''restrain''] container)) \<and>
   (\<exists>a\<in>set [''observer'']. sublist ''serve'' a) \<and>
   Serve \<in> set (invoked (mars_main small_lib [''observer''] container)) \<and>
   Train \<notin> set (invoked (mars_main small_lib [''observer''] container))"
proof -
  have g:
    "\<exists>a\<in>set [''restrain'']. sublist ''train'' a"
    "\<exists>a\<in>set [''observer'']. sublist ''serve'' a"
    "\<not> (\<exists>a\<in>set [''observer'']. sublist ''train'' a)"
    by code_simp+
  from substring_dispatch [of small_lib "[''restrain'']" container] g
  have a: "Train \<in> set (invoked (mars_main small_lib [''restrain''] container))"
    by blast
  from substring_dispatch [of small_lib "[''observer'']" container] g
  have b: "Serve \<in> set (invoked (mars_main small_lib [''observer''] container))"
    and c: "Train \<notin> set (invoked (mars_main small_lib [''observer''] container))"
    by blast+
  from g(1) a g(2) b c show ?thesis
    by (intro conjI)
qed

text \<open>
  The claim as stated, that the serving routine runs exactly when some argument contains
  \<^verbatim>\<open>serve\<close>, fails where training raises an error: \<^verbatim>\<open>observer\<close> contains \<^verbatim>\<open>serve\<close>, yet
  after the failed training selected by \<^verbatim>\<open>restrain\<close> the serving routine does not run.
\<close>

theorem observer_not_served:
  "sublist ''train'' ''restrain'' \<and> sublist ''serve'' ''observer'' \<and>
   invoked (mars_main small_lib [''restrain'', ''observer''] bare_container) = [Train] \<and>
   Serve \<notin> set (invoked (mars_main small_lib [''restrain'', ''observer''] bare_container))"
  by code_simp

section \<open>The prediction handler keeps no state (C3)\<close>

lemma serve_loop_append:
  "serve_loop lib w (h @ evs) = serve_loop lib w h @ serve_loop lib (world_after w h) evs"
proof (induction h arbitrary: w)
  case Nil
  then show ?case by simp
next
  case (Cons ev h)
  then show ?case by (cases ev) simp_all
qed

lemma load_artifact_cong:
  "file_at w1 artifact_file = file_at w2 artifact_file \<Longrightarrow> load_artifact w1 = load_artifact w2"
  by (simp add: load_artifact_def)

lemma post_invocations_cong:
  "file_at w1 artifact_file = file_at w2 artifact_file \<Longrightarrow>
   post_invocations lib w1 body = post_invocations lib w2 body"
  using load_artifact_cong [of w1 w2] by (simp add: post_invocations_def invocations_def)

text \<open>
  C3. The answer to a prediction request is a function of the request body and of the
  model file as it is when the request is handled: two worlds that agree on that file give
  the same answer to the same body, whatever else they hold. The server reads the file
  anew for every request and carries nothing over: its answer to a request after any
  history of requests and file replacements is the handler's answer in the world the
  history left, so two servers whose model files agree when the request arrives answer
  alike, whatever they answered before.
\<close>

theorem invocations_stateless:
  "(file_at w1 artifact_file = file_at w2 artifact_file \<longrightarrow>
      invocations lib w1 body = invocations lib w2 body \<and>
      post_invocations lib w1 body = post_invocations lib w2 body) \<and>
   serve_loop lib w1 (h1 @ [Invocations body]) =
     serve_loop lib w1 h1 @ [post_invocations lib (world_after w1 h1) body] \<and>
   (file_at (world_after w1 h1) artifact_file = file_at (world_after w2 h2) artifact_file \<longrightarrow>
      last (serve_loop lib w1 (h1 @ [Invocations body])) =
      last (serve_loop lib w2 (h2 @ [Invocations body])))"
proof -
  have a: "invocations lib w1 body = invocations lib w2 body \<and>
      post_invocations lib w1 body = post_invocations lib w2 body"
    if "file_at w1 artifact_file = file_at w2 artifact_file"
    using load_artifact_cong [OF that] by (simp add: post_invocations_def invocations_def)
  have b: "serve_loop lib v (h @ [Invocations body]) =
      serve_loop lib v h @ [post_invocations lib (world_after v h) body]" for v h
    by (simp add: serve_loop_append)
  have c: "last (serve_loop lib w1 (h1 @ [Invocations body])) =
      last (serve_loop lib w2 (h2 @ [Invocations body]))"
    if "file_at (world_after w1 h1) artifact_file = file_at (world_after w2 h2) artifact_file"
    using post_invocations_cong [OF that] by (simp add: b)
  have a': "file_at w1 artifact_file = file_at w2 artifact_file \<longrightarrow>
      invocations lib w1 body = invocations lib w2 body \<and>
      post_invocations lib w1 body = post_invocations lib w2 body"
    using a by (rule impI)
  have c': "file_at (world_after w1 h1) artifact_file = file_at (world_after w2 h2) artifact_file \<longrightarrow>
      last (serve_loop lib w1 (h1 @ [Invocations body])) =
      last (serve_loop lib w2 (h2 @ [Invocations body]))"
    using c by (rule impI)
  from a' b [of w1 h1] c' show ?thesis
    by (intro conjI)
qed

theorem invocations_stateless_witness:
  "file_at (world_after trained_container
       [Invocations one_record, Replaced artifact_file second_artifact]) artifact_file =
     file_at (world_after second_container [Ping]) artifact_file \<and>
   last (serve_loop small_lib trained_container
       ([Invocations one_record, Replaced artifact_file second_artifact] @ [Invocations one_record])) =
     last (serve_loop small_lib second_container ([Ping] @ [Invocations one_record])) \<and>
   serve_loop small_lib trained_container
       ([Invocations one_record, Replaced artifact_file second_artifact] @ [Invocations one_record]) =
     [HTTP 200 (''['' @ [CHR 0x22] @ ''7'' @ [CHR 0x22] @ '']''),
      HTTP 200 (''['' @ [CHR 0x22] @ ''14'' @ [CHR 0x22] @ '']'')]"
proof -
  note t = invocations_stateless [where lib = small_lib and body = one_record
      and ?w1.0 = trained_container
      and ?h1.0 = "[Invocations one_record, Replaced artifact_file second_artifact]"
      and ?w2.0 = second_container and ?h2.0 = "[Ping]"]
  have h: "file_at (world_after trained_container
       [Invocations one_record, Replaced artifact_file second_artifact]) artifact_file =
     file_at (world_after second_container [Ping]) artifact_file"
    by code_simp
  have l: "last (serve_loop small_lib trained_container
       ([Invocations one_record, Replaced artifact_file second_artifact] @ [Invocations one_record])) =
     last (serve_loop small_lib second_container ([Ping] @ [Invocations one_record]))"
    by (rule t [THEN conjunct2, THEN conjunct2, THEN mp, OF h])
  have v: "serve_loop small_lib trained_container
       ([Invocations one_record, Replaced artifact_file second_artifact] @ [Invocations one_record]) =
     [HTTP 200 (''['' @ [CHR 0x22] @ ''7'' @ [CHR 0x22] @ '']''),
      HTTP 200 (''['' @ [CHR 0x22] @ ''14'' @ [CHR 0x22] @ '']'')]"
    by code_simp
  from h l v show ?thesis
    by (intro conjI)
qed

section \<open>The response to a prediction request (C5)\<close>

lemma predict_rows_length:
  "predict_rows lib m cols rows = Inr ps \<Longrightarrow> length ps = length rows"
  by (induction rows arbitrary: ps) (auto split: sum.splits)

lemma map2_or_False: "map2 (\<or>) (replicate n False) (replicate n False) = replicate n False"
  by (induction n) auto

lemma na_mask_complete:
  assumes "list_all (\<lambda>nc. cell_na (snd nc) = replicate n False) data" and "data \<noteq> []"
  shows "na_mask data = replicate n False"
proof -
  have n: "nrow data = n"
    using assms by (cases data) (auto simp: nrow_def)
  have "foldr (\<lambda>nc m. map2 (\<or>) (cell_na (snd nc)) m) ds (replicate n False) = replicate n False"
    if "list_all (\<lambda>nc. cell_na (snd nc) = replicate n False) ds" for ds
    using that by (induction ds) (auto simp: map2_or_False)
  then show ?thesis
    using assms(1) n by (simp add: na_mask_def)
qed

lemma keep_rows_complete:
  "map (\<lambda>x. x = None) xs = replicate n False \<Longrightarrow> length (keep_rows (replicate n False) xs) = n"
proof (induction xs arbitrary: n)
  case Nil
  then show ?case by (simp add: keep_rows_def List.map_filter_simps)
next
  case (Cons x xs)
  then obtain m where m: "n = Suc m" by (cases n) auto
  with Cons.prems have "x \<noteq> None" "map (\<lambda>x. x = None) xs = replicate m False"
    by auto
  with Cons.IH [of m] m show ?case
    by (auto simp: keep_rows_def List.map_filter_simps)
qed

lemma omit_col_complete:
  "cell_na c = replicate n False \<Longrightarrow> nrow_mf [(nm, omit_col (replicate n False) c)] = n"
  by (cases c) (simp_all add: nrow_mf_def keep_rows_complete)

lemma na_omit_complete:
  assumes "list_all (\<lambda>nc. cell_na (snd nc) = replicate n False) data" and "data \<noteq> []"
  shows "list_all (\<lambda>nv. nrow_mf [nv] = n) (na_omit data) \<and> length (na_omit data) = length data"
  using assms(1) omit_col_complete
  by (auto simp: na_omit_def na_mask_complete [OF assms] list_all_iff)

lemma relevel_rows:
  "relevel nm xl mf = Inr mf' \<Longrightarrow> list_all (\<lambda>nv. nrow_mf [nv] = n) mf \<Longrightarrow>
   list_all (\<lambda>nv. nrow_mf [nv] = n) mf' \<and> length mf' = length mf"
proof (induction mf arbitrary: mf')
  case Nil
  then show ?case by simp
next
  case (Cons nv mf)
  then show ?case
    by (auto simp: nrow_mf_def split: if_splits variable.splits list.splits sum.splits)
qed

lemma apply_xlev_rows:
  "apply_xlev xlev mf = Inr mf' \<Longrightarrow> list_all (\<lambda>nv. nrow_mf [nv] = n) mf \<Longrightarrow>
   list_all (\<lambda>nv. nrow_mf [nv] = n) mf' \<and> length mf' = length mf"
proof (induction xlev arbitrary: mf)
  case Nil
  then show ?case by simp
next
  case (Cons nx rest)
  from Cons.prems(1) obtain mf1 where
    r: "relevel (fst nx) (snd nx) mf = Inr mf1" and a: "apply_xlev rest mf1 = Inr mf'"
    by (auto split: sum.splits)
  from relevel_rows [OF r Cons.prems(2)] Cons.IH [OF a] show ?case
    by simp
qed

lemma expand_var_rows:
  "expand_var nm v = Inr cs \<Longrightarrow> nrow_mf [(nm, v)] = n \<Longrightarrow> list_all (\<lambda>c. length (snd c) = n) cs"
  by (cases v) (auto simp: nrow_mf_def list_all_iff split: if_splits)

lemma expand_vars_rows:
  "expand_vars mf = Inr cs \<Longrightarrow> list_all (\<lambda>nv. nrow_mf [nv] = n) mf \<Longrightarrow>
   list_all (\<lambda>c. length (snd c) = n) cs"
proof (induction mf arbitrary: cs)
  case Nil
  then show ?case by simp
next
  case (Cons nv mf)
  from Cons.prems(1) obtain c1 c2 where
    e1: "expand_var (fst nv) (snd nv) = Inr c1" and e2: "expand_vars mf = Inr c2" and cs: "cs = c1 @ c2"
    by (auto split: sum.splits)
  from Cons.prems(2) have "nrow_mf [(fst nv, snd nv)] = n" "list_all (\<lambda>nv. nrow_mf [nv] = n) mf"
    by simp_all
  with expand_var_rows [OF e1] Cons.IH [OF e2] cs show ?case
    by simp
qed

lemma nrow_mf_rows:
  "list_all (\<lambda>nv. nrow_mf [nv] = n) mf \<Longrightarrow> mf \<noteq> [] \<Longrightarrow> nrow_mf mf = n"
  by (cases mf) (auto simp: nrow_mf_def)

lemma length_transpose_rows:
  fixes x :: design_matrix
  assumes a: "list_all (\<lambda>c. length (snd c) = n) x" and b: "x \<noteq> []"
  shows "length (transpose (map snd x)) = n"
proof -
  have "foldr (\<lambda>xs. max (length xs)) (map snd y) 0 = (if y = [] then 0 else n)"
    if "list_all (\<lambda>c. length (snd c) = n) y" for y :: design_matrix
    using that by (induction y) auto
  from this [OF a] b show ?thesis
    by (simp add: length_transpose)
qed

text \<open>A data frame of \<open>n\<close> records without a missing cell gives a design matrix of \<open>n\<close> rows.\<close>

lemma model_matrix_rows:
  assumes "model_matrix lib data xlev = Inr x" and "data \<noteq> []"
    and "list_all (\<lambda>nc. cell_na (snd nc) = replicate n False) data"
  shows "length (matrix_rows x) = n"
proof -
  from assms(1,2) obtain mf cs where
    mf: "apply_xlev xlev (na_omit data) = Inr mf" and cs: "expand_vars mf = Inr cs" and
    x: "x = (''(Intercept)'', replicate (nrow_mf mf) 1) # cs"
    by (auto simp: model_matrix_def model_frame_def split: sum.splits)
  note c = na_omit_complete [OF assms(3,2)]
  from apply_xlev_rows [OF mf c [THEN conjunct1]] c
  have r: "list_all (\<lambda>nv. nrow_mf [nv] = n) mf" and l: "length mf = length data"
    by simp_all
  from l assms(2) have "mf \<noteq> []" by auto
  with r have "nrow_mf mf = n" by (rule nrow_mf_rows)
  with expand_vars_rows [OF cs r] x have "list_all (\<lambda>c. length (snd c) = n) x" and "x \<noteq> []"
    by simp_all
  then have "length (transpose (map snd x)) = n"
    by (rule length_transpose_rows)
  then show ?thesis
    by (simp only: matrix_rows_def)
qed

text \<open>
  C5, as the code has it. For a request that the handler can score (the model file loads,
  the body parses, the design matrix is built and every row is predicted), the handler
  returns the predictions, one for each row of the design matrix, rendered as text and
  joined by commas into one string; plumber sends that string as JSON, an array holding
  the one string, with status 200. A request of \<open>n\<close> records without a missing cell gets
  \<open>n\<close> predictions, and a request of one such record gets a string that is the one
  prediction alone.
\<close>

theorem prediction_response_format:
  assumes "load_artifact w = Inr a"
    and "read_csv lib (gsub backslash_n newline body) = Inr data"
    and "model_matrix lib data (factor_levels a) = Inr x"
    and "predict lib (mars_model a) x = Inr ps"
  shows "invocations lib w body = Inr (paste_collapse (map (as_character lib) ps) '','') \<and>
         post_invocations lib w body =
           HTTP 200 (''['' @ [CHR 0x22] @
                     json_escape lib (paste_collapse (map (as_character lib) ps) '','') @
                     [CHR 0x22] @ '']'') \<and>
         length ps = length (matrix_rows x) \<and>
         (data \<noteq> [] \<and> list_all (\<lambda>nc. cell_na (snd nc) = replicate n False) data \<longrightarrow>
            length ps = n) \<and>
         (data \<noteq> [] \<and> list_all (\<lambda>nc. cell_na (snd nc) = [False]) data \<longrightarrow>
            (\<exists>p. ps = [p] \<and> invocations lib w body = Inr (as_character lib p)))"
proof -
  have i: "invocations lib w body = Inr (paste_collapse (map (as_character lib) ps) '','')"
    using assms by (simp add: invocations_def)
  have l: "length ps = length (matrix_rows x)"
    using assms(4) by (auto simp: predict_def split: if_splits dest: predict_rows_length)
  have p: "post_invocations lib w body =
      HTTP 200 (''['' @ [CHR 0x22] @
                json_escape lib (paste_collapse (map (as_character lib) ps) '','') @
                [CHR 0x22] @ '']'')"
    using i by (simp add: post_invocations_def serializer_json_def json_string_def)
  have r: "length ps = m"
    if "data \<noteq> [] \<and> list_all (\<lambda>nc. cell_na (snd nc) = replicate m False) data" for m
    using model_matrix_rows [OF assms(3), of m] that l by simp
  have s: "\<exists>p. ps = [p] \<and> invocations lib w body = Inr (as_character lib p)"
    if "data \<noteq> [] \<and> list_all (\<lambda>nc. cell_na (snd nc) = [False]) data"
  proof -
    from that have "data \<noteq> [] \<and> list_all (\<lambda>nc. cell_na (snd nc) = replicate 1 False) data"
      by simp
    then have "length ps = 1"
      by (rule r)
    then obtain q where "ps = [q]"
      by (cases ps) auto
    with i show ?thesis
      by simp
  qed
  have r': "data \<noteq> [] \<and> list_all (\<lambda>nc. cell_na (snd nc) = replicate n False) data \<longrightarrow>
      length ps = n"
    using r by (rule impI)
  have s': "data \<noteq> [] \<and> list_all (\<lambda>nc. cell_na (snd nc) = [False]) data \<longrightarrow>
      (\<exists>p. ps = [p] \<and> invocations lib w body = Inr (as_character lib p))"
    using s by (rule impI)
  from i p l r' s' show ?thesis
    by (intro conjI)
qed

theorem prediction_response_format_witness:
  "load_artifact trained_container = Inr trained_artifact \<and>
   read_csv small_lib (gsub backslash_n newline one_record) = Inr one_record_data \<and>
   model_matrix small_lib one_record_data (factor_levels trained_artifact) = Inr one_record_matrix \<and>
   predict small_lib (mars_model trained_artifact) one_record_matrix = Inr [7] \<and>
   one_record_data \<noteq> [] \<and>
   list_all (\<lambda>nc. cell_na (snd nc) = [False]) one_record_data \<and>
   invocations small_lib trained_container one_record = Inr (as_character small_lib 7) \<and>
   as_character small_lib 7 = ''7'' \<and>
   post_invocations small_lib trained_container one_record =
     HTTP 200 (''['' @ [CHR 0x22] @
               json_escape small_lib (paste_collapse (map (as_character small_lib) [7]) '','') @
               [CHR 0x22] @ '']'')"
proof -
  have h1: "load_artifact trained_container = Inr trained_artifact"
    by code_simp
  have h2: "read_csv small_lib (gsub backslash_n newline one_record) = Inr one_record_data"
    by code_simp
  have h3: "model_matrix small_lib one_record_data (factor_levels trained_artifact) = Inr one_record_matrix"
    by code_simp
  have h4: "predict small_lib (mars_model trained_artifact) one_record_matrix = Inr [7]"
    by code_simp
  have d1: "one_record_data \<noteq> []"
    by (simp add: one_record_data_def)
  have d2: "list_all (\<lambda>nc. cell_na (snd nc) = [False]) one_record_data"
    by (simp add: one_record_data_def)
  have c: "as_character small_lib 7 = ''7''"
    by code_simp
  note t = prediction_response_format [OF h1 h2 h3 h4, of 1]
  from t have p: "post_invocations small_lib trained_container one_record =
     HTTP 200 (''['' @ [CHR 0x22] @
               json_escape small_lib (paste_collapse (map (as_character small_lib) [7]) '','') @
               [CHR 0x22] @ '']'')"
    by (elim conjE)
  from t have "one_record_data \<noteq> [] \<and> list_all (\<lambda>nc. cell_na (snd nc) = [False]) one_record_data \<longrightarrow>
      (\<exists>p. [7] = [p] \<and> invocations small_lib trained_container one_record = Inr (as_character small_lib p))"
    by (elim conjE)
  with d1 d2 have i: "invocations small_lib trained_container one_record = Inr (as_character small_lib 7)"
    by auto
  from h1 h2 h3 h4 d1 d2 i c p show ?thesis
    by (intro conjI)
qed

text \<open>
  The claim as stated, a body that is the comma-joined line with no other framing, fails
  on a request of two records: the handler returns \<^verbatim>\<open>7,9\<close>, and the body sent is that
  string inside a JSON array, not the bare line.
\<close>

theorem response_body_is_json:
  "invocations small_lib trained_container two_records = Inr ''7,9'' \<and>
   post_invocations small_lib trained_container two_records =
     HTTP 200 (''['' @ [CHR 0x22] @ ''7,9'' @ [CHR 0x22] @ '']'') \<and>
   post_invocations small_lib trained_container two_records \<noteq> HTTP 200 ''7,9''"
  by code_simp

section \<open>The request body's newlines (C9)\<close>

text \<open>Records without the sequence, joined by it, are rewritten to one record on each line.\<close>

lemma gsub_bn_records:
  "list_all (\<lambda>r. \<not> sublist backslash_n r) rs \<Longrightarrow>
   gsub backslash_n newline (paste_collapse rs backslash_n) = paste_collapse rs newline"
proof (induction rs)
  case Nil
  show ?case by (simp add: gsub_bn_Nil)
next
  case (Cons r rs)
  from Cons.prems have r: "\<not> sublist backslash_n r"
    and rs: "list_all (\<lambda>r. \<not> sublist backslash_n r) rs"
    by simp_all
  show ?case
  proof (cases rs)
    case Nil
    with r show ?thesis by (simp add: gsub_bn_id)
  next
    case (Cons s ss)
    have "gsub backslash_n newline (r @ backslash_n @ paste_collapse rs backslash_n) =
        r @ newline @ gsub backslash_n newline (paste_collapse rs backslash_n)"
      using r by (rule gsub_bn_leftmost)
    also have "\<dots> = r @ newline @ paste_collapse rs newline"
      using Cons.IH [OF rs] by simp
    finally show ?thesis
      using Cons by simp
  qed
qed

text \<open>
  C9. The handler of \<^verbatim>\<open>/invocations\<close> gives \<^verbatim>\<open>read.csv\<close> the request body with every
  backslash followed by the letter n replaced by a newline, and answers from what
  \<^verbatim>\<open>read.csv\<close> makes of that rewritten text: an error of \<^verbatim>\<open>read.csv\<close> on the rewritten text is
  the handler's error, and when the rewritten text is read, the design matrix is built and
  every row is predicted, the answer is the predictions of the records read from the
  rewritten text, \<open>n\<close> of them for \<open>n\<close> records without a missing cell. So a body of records
  joined by escaped newlines is read as the text that holds these records on lines of
  their own, and gets one prediction for each record read from those lines. The rewritten
  text holds no backslash followed by n and differs from a body that holds one, so a field
  with a literal backslash-n never reaches \<^verbatim>\<open>read.csv\<close> as it was sent. Every occurrence is
  rewritten: the leftmost becomes a newline and the rewriting goes on behind it. Two
  bodies with the same rewritten text get the same answer, and a body gets the answer of
  its rewritten text.
\<close>

theorem invocations_newline_rewriting:
  "(load_artifact w = Inr a \<and> read_csv lib (gsub backslash_n newline body) = Inl e \<longrightarrow>
      invocations lib w body = Inl e) \<and>
   (load_artifact w = Inr a \<and> read_csv lib (gsub backslash_n newline body) = Inr data \<and>
    model_matrix lib data (factor_levels a) = Inr x \<and> predict lib (mars_model a) x = Inr ps \<longrightarrow>
      invocations lib w body = Inr (paste_collapse (map (as_character lib) ps) '','') \<and>
      (data \<noteq> [] \<and> list_all (\<lambda>nc. cell_na (snd nc) = replicate n False) data \<longrightarrow>
         length ps = n)) \<and>
   (list_all (\<lambda>r. \<not> sublist backslash_n r) rs \<and>
    load_artifact w = Inr a \<and> read_csv lib (paste_collapse rs newline) = Inr data \<and>
    model_matrix lib data (factor_levels a) = Inr x \<and> predict lib (mars_model a) x = Inr ps \<and>
    data \<noteq> [] \<and> list_all (\<lambda>nc. cell_na (snd nc) = replicate n False) data \<longrightarrow>
      invocations lib w (paste_collapse rs backslash_n) =
        Inr (paste_collapse (map (as_character lib) ps) '','') \<and>
      length ps = n) \<and>
   \<not> sublist backslash_n (gsub backslash_n newline body) \<and>
   (sublist backslash_n body \<longrightarrow> gsub backslash_n newline body \<noteq> body) \<and>
   (\<not> sublist backslash_n xs \<longrightarrow>
      gsub backslash_n newline (xs @ backslash_n @ ys) =
      xs @ newline @ gsub backslash_n newline ys) \<and>
   (list_all (\<lambda>r. \<not> sublist backslash_n r) rs \<longrightarrow>
      gsub backslash_n newline (paste_collapse rs backslash_n) = paste_collapse rs newline) \<and>
   (gsub backslash_n newline body = gsub backslash_n newline body' \<longrightarrow>
      invocations lib w body = invocations lib w body') \<and>
   invocations lib w body = invocations lib w (gsub backslash_n newline body)"
proof -
  have free: "\<not> sublist backslash_n (gsub backslash_n newline body)"
    by (rule gsub_bn_free)
  have idem: "gsub backslash_n newline (gsub backslash_n newline body) = gsub backslash_n newline body"
    using free by (rule gsub_bn_id)
  have same: "invocations lib w b1 = invocations lib w b2"
    if "gsub backslash_n newline b1 = gsub backslash_n newline b2" for b1 b2
    unfolding invocations_def that by (rule refl)
  have fails: "invocations lib w body = Inl e"
    if "load_artifact w = Inr a \<and> read_csv lib (gsub backslash_n newline body) = Inl e"
    using that by (simp add: invocations_def)
  have answer: "invocations lib w b = Inr (paste_collapse (map (as_character lib) ps) '','')"
    if "load_artifact w = Inr a" and "read_csv lib (gsub backslash_n newline b) = Inr data"
      and "model_matrix lib data (factor_levels a) = Inr x"
      and "predict lib (mars_model a) x = Inr ps" for b
    using that by (simp add: invocations_def)
  have rows: "length ps = m"
    if "model_matrix lib data (factor_levels a) = Inr x" and "predict lib (mars_model a) x = Inr ps"
      and "data \<noteq> []" and "list_all (\<lambda>nc. cell_na (snd nc) = replicate m False) data" for m
  proof -
    have "length ps = length (matrix_rows x)"
      using that(2) by (auto simp: predict_def split: if_splits dest: predict_rows_length)
    with model_matrix_rows [OF that(1,3,4)] show ?thesis
      by simp
  qed
  have c1: "load_artifact w = Inr a \<and> read_csv lib (gsub backslash_n newline body) = Inl e \<longrightarrow>
      invocations lib w body = Inl e"
    using fails by (rule impI)
  have c2: "load_artifact w = Inr a \<and> read_csv lib (gsub backslash_n newline body) = Inr data \<and>
    model_matrix lib data (factor_levels a) = Inr x \<and> predict lib (mars_model a) x = Inr ps \<longrightarrow>
      invocations lib w body = Inr (paste_collapse (map (as_character lib) ps) '','') \<and>
      (data \<noteq> [] \<and> list_all (\<lambda>nc. cell_na (snd nc) = replicate n False) data \<longrightarrow>
         length ps = n)"
  proof (intro impI conjI)
    assume h: "load_artifact w = Inr a \<and> read_csv lib (gsub backslash_n newline body) = Inr data \<and>
      model_matrix lib data (factor_levels a) = Inr x \<and> predict lib (mars_model a) x = Inr ps"
    then show "invocations lib w body = Inr (paste_collapse (map (as_character lib) ps) '','')"
      using answer [of body] by simp
    assume "data \<noteq> [] \<and> list_all (\<lambda>nc. cell_na (snd nc) = replicate n False) data"
    with h show "length ps = n"
      using rows [of n] by simp
  qed
  have c3: "list_all (\<lambda>r. \<not> sublist backslash_n r) rs \<and>
    load_artifact w = Inr a \<and> read_csv lib (paste_collapse rs newline) = Inr data \<and>
    model_matrix lib data (factor_levels a) = Inr x \<and> predict lib (mars_model a) x = Inr ps \<and>
    data \<noteq> [] \<and> list_all (\<lambda>nc. cell_na (snd nc) = replicate n False) data \<longrightarrow>
      invocations lib w (paste_collapse rs backslash_n) =
        Inr (paste_collapse (map (as_character lib) ps) '','') \<and>
      length ps = n"
  proof (intro impI conjI)
    assume h: "list_all (\<lambda>r. \<not> sublist backslash_n r) rs \<and>
      load_artifact w = Inr a \<and> read_csv lib (paste_collapse rs newline) = Inr data \<and>
      model_matrix lib data (factor_levels a) = Inr x \<and> predict lib (mars_model a) x = Inr ps \<and>
      data \<noteq> [] \<and> list_all (\<lambda>nc. cell_na (snd nc) = replicate n False) data"
    then have "gsub backslash_n newline (paste_collapse rs backslash_n) = paste_collapse rs newline"
      using gsub_bn_records [of rs] by simp
    with h have "read_csv lib (gsub backslash_n newline (paste_collapse rs backslash_n)) = Inr data"
      by simp
    with h show "invocations lib w (paste_collapse rs backslash_n) =
        Inr (paste_collapse (map (as_character lib) ps) '','')"
      using answer [of "paste_collapse rs backslash_n"] by simp
    from h show "length ps = n"
      using rows [of n] by simp
  qed
  have c5: "sublist backslash_n body \<longrightarrow> gsub backslash_n newline body \<noteq> body"
    using free by auto
  have c6: "\<not> sublist backslash_n xs \<longrightarrow>
      gsub backslash_n newline (xs @ backslash_n @ ys) =
      xs @ newline @ gsub backslash_n newline ys"
    using gsub_bn_leftmost [of xs ys] by (rule impI)
  have c7: "list_all (\<lambda>r. \<not> sublist backslash_n r) rs \<longrightarrow>
      gsub backslash_n newline (paste_collapse rs backslash_n) = paste_collapse rs newline"
    using gsub_bn_records [of rs] by (rule impI)
  have c8: "gsub backslash_n newline body = gsub backslash_n newline body' \<longrightarrow>
      invocations lib w body = invocations lib w body'"
    using same by (rule impI)
  have c9: "invocations lib w body = invocations lib w (gsub backslash_n newline body)"
    using idem [symmetric] by (rule same)
  from c1 c2 c3 free c5 c6 c7 c8 c9 show ?thesis
    by (intro conjI)
qed

theorem invocations_newline_rewriting_witness:
  "load_artifact trained_container = Inr trained_artifact \<and>
   two_records = paste_collapse two_lines backslash_n \<and>
   list_all (\<lambda>r. \<not> sublist backslash_n r) two_lines \<and>
   gsub backslash_n newline two_records = paste_collapse two_lines newline \<and>
   read_csv small_lib (paste_collapse two_lines newline) = Inr two_records_data \<and>
   read_csv small_lib two_records \<noteq> Inr two_records_data \<and>
   model_matrix small_lib two_records_data (factor_levels trained_artifact) = Inr two_records_matrix \<and>
   predict small_lib (mars_model trained_artifact) two_records_matrix = Inr [7, 9] \<and>
   two_records_data \<noteq> [] \<and>
   list_all (\<lambda>nc. cell_na (snd nc) = replicate 2 False) two_records_data \<and>
   invocations small_lib trained_container two_records =
     Inr (paste_collapse (map (as_character small_lib) [7, 9]) '','') \<and>
   paste_collapse (map (as_character small_lib) [7, 9]) '','' = ''7,9'' \<and>
   length [7, 9 :: real] = 2 \<and>
   invocations small_lib trained_container (paste_collapse two_lines backslash_n) =
     Inr (paste_collapse (map (as_character small_lib) [7, 9]) '','') \<and>
   invocations small_lib trained_container two_records =
     invocations small_lib trained_container (paste_collapse two_lines newline) \<and>
   read_csv small_lib (gsub backslash_n newline []) = Inl (Lib ''read.csv'') \<and>
   invocations small_lib trained_container [] = Inl (Lib ''read.csv'') \<and>
   sublist backslash_n escaped_field \<and>
   gsub backslash_n newline escaped_field \<noteq> escaped_field \<and>
   \<not> sublist backslash_n (gsub backslash_n newline escaped_field) \<and>
   gsub backslash_n newline escaped_field = ''x,grade'' @ newline @ ''5,a'' @ newline @ ''b''"
proof -
  note t = invocations_newline_rewriting
    [where w = trained_container and a = trained_artifact and lib = small_lib
       and body = two_records and data = two_records_data and x = two_records_matrix
       and ps = "[7, 9]" and n = 2 and rs = two_lines
       and body' = "paste_collapse two_lines newline"]
  note u = invocations_newline_rewriting
    [where w = trained_container and a = trained_artifact and lib = small_lib
       and body = "[]" and e = "Lib ''read.csv''"]
  note v = invocations_newline_rewriting
    [where body = escaped_field and xs = "''x,grade'' @ newline @ ''5,a''" and ys = "''b''"]
  have h1: "load_artifact trained_container = Inr trained_artifact"
    by code_simp
  have h2: "two_records = paste_collapse two_lines backslash_n"
    by code_simp
  have h3: "list_all (\<lambda>r. \<not> sublist backslash_n r) two_lines"
    by code_simp
  have h4: "read_csv small_lib (paste_collapse two_lines newline) = Inr two_records_data"
    by code_simp
  have h5: "read_csv small_lib two_records \<noteq> Inr two_records_data"
    by code_simp
  have h6: "model_matrix small_lib two_records_data (factor_levels trained_artifact) = Inr two_records_matrix"
    by code_simp
  have h7: "predict small_lib (mars_model trained_artifact) two_records_matrix = Inr [7, 9]"
    by code_simp
  have h8: "two_records_data \<noteq> []"
    by (simp add: two_records_data_def)
  have h9: "list_all (\<lambda>nc. cell_na (snd nc) = replicate 2 False) two_records_data"
    by (simp add: two_records_data_def numeral_2_eq_2)
  have p: "paste_collapse (map (as_character small_lib) [7, 9]) '','' = ''7,9''"
    by code_simp
  have l: "length [7, 9 :: real] = 2"
    by simp
  have e1: "read_csv small_lib (gsub backslash_n newline []) = Inl (Lib ''read.csv'')"
    by code_simp
  have f1: "sublist backslash_n escaped_field"
    by code_simp
  have f2: "\<not> sublist backslash_n (''x,grade'' @ newline @ ''5,a'')"
    by code_simp
  have f3: "gsub backslash_n newline ''b'' = ''b''"
    by code_simp
  have f4: "escaped_field = (''x,grade'' @ newline @ ''5,a'') @ backslash_n @ ''b''"
    by (simp add: escaped_field_def)
  have g: "gsub backslash_n newline two_records = paste_collapse two_lines newline"
    using t [THEN conjunct2, THEN conjunct2, THEN conjunct2, THEN conjunct2, THEN conjunct2,
             THEN conjunct2, THEN conjunct1, THEN mp, OF h3]
    by (simp only: h2)
  from h4 g have h4': "read_csv small_lib (gsub backslash_n newline two_records) = Inr two_records_data"
    by (simp only:)
  have i: "invocations small_lib trained_container two_records =
      Inr (paste_collapse (map (as_character small_lib) [7, 9]) '','')"
    using t [THEN conjunct2, THEN conjunct1, THEN mp, OF conjI [OF h1 conjI [OF h4' conjI [OF h6 h7]]]]
    by (rule conjunct1)
  have j: "invocations small_lib trained_container (paste_collapse two_lines backslash_n) =
      Inr (paste_collapse (map (as_character small_lib) [7, 9]) '','')"
    using t [THEN conjunct2, THEN conjunct2, THEN conjunct1, THEN mp,
             OF conjI [OF h3 conjI [OF h1 conjI [OF h4 conjI [OF h6 conjI [OF h7 conjI [OF h8 h9]]]]]]]
    by (rule conjunct1)
  have k: "invocations small_lib trained_container two_records =
      invocations small_lib trained_container (paste_collapse two_lines newline)"
    by (rule t [THEN conjunct2, THEN conjunct2, THEN conjunct2, THEN conjunct2, THEN conjunct2,
                THEN conjunct2, THEN conjunct2, THEN conjunct1, THEN mp])
       (simp only: g gsub_bn_id [OF gsub_bn_free, of two_records, unfolded g])
  have e2: "invocations small_lib trained_container [] = Inl (Lib ''read.csv'')"
    by (rule u [THEN conjunct1, THEN mp, OF conjI [OF h1 e1]])
  have f5: "gsub backslash_n newline escaped_field \<noteq> escaped_field"
    by (rule v [THEN conjunct2, THEN conjunct2, THEN conjunct2, THEN conjunct2, THEN conjunct1,
                THEN mp, OF f1])
  have f6: "\<not> sublist backslash_n (gsub backslash_n newline escaped_field)"
    by (rule v [THEN conjunct2, THEN conjunct2, THEN conjunct2, THEN conjunct1])
  have "gsub backslash_n newline escaped_field =
      (''x,grade'' @ newline @ ''5,a'') @ newline @ gsub backslash_n newline ''b''"
    unfolding f4
    by (rule v [THEN conjunct2, THEN conjunct2, THEN conjunct2, THEN conjunct2, THEN conjunct2,
                THEN conjunct1, THEN mp, OF f2])
  then have f7: "gsub backslash_n newline escaped_field = ''x,grade'' @ newline @ ''5,a'' @ newline @ ''b''"
    by (simp only: f3 append_assoc)
  from h1 h2 h3 g h4 h5 h6 h7 h8 h9 i p l j k e1 e2 f1 f5 f6 f7 show ?thesis
    by (intro conjI)
qed

section \<open>The default degree (C4)\<close>

lemma dollar_exact: "map_of xs name = Some v \<Longrightarrow> dollar xs name = Some v"
  by (simp add: dollar_def)

lemma filter_none: "list_all (\<lambda>kv. \<not> P kv) xs \<Longrightarrow> filter P xs = []"
  by (induction xs) auto

lemma map_of_no_prefix:
  "list_all (\<lambda>kv. \<not> prefix name (fst kv)) xs \<Longrightarrow> map_of xs name = None"
  by (induction xs) auto

lemma dollar_absent:
  "list_all (\<lambda>kv. \<not> prefix name (fst kv)) xs \<Longrightarrow> dollar xs name = None"
  by (simp add: dollar_def map_of_no_prefix filter_none)

text \<open>With no key that starts with \<^verbatim>\<open>degree\<close> the degree is 2.\<close>

lemma degree_default:
  "list_all (\<lambda>kv. \<not> prefix ''degree'' (fst kv)) ps \<Longrightarrow> degree_of lib ps = Some 2"
  by (simp add: degree_of_def dollar_absent)

lemma degree_explicit:
  "map_of ps ''degree'' = Some s \<Longrightarrow> degree_of lib ps = parse_number lib s"
  by (simp add: degree_of_def dollar_exact)

text \<open>
  Two runs on the same data and target, one with the degree given as a string that
  reads as 2 and one without any key that starts with \<^verbatim>\<open>degree\<close>, fit the same model.
\<close>

lemma degree_default_equivalence:
  assumes "read_params lib w1 = Inr ps1" and "read_params lib w2 = Inr ps2"
    and "load_training_data lib w1 = load_training_data lib w2"
    and "dollar ps1 ''target'' = dollar ps2 ''target''"
    and "map_of ps1 ''degree'' = Some s" and "parse_number lib s = Some 2"
    and "list_all (\<lambda>kv. \<not> prefix ''degree'' (fst kv)) ps2"
  shows "fit lib w1 = fit lib w2"
proof -
  have "degree_of lib ps1 = degree_of lib ps2"
    using assms(5,6,7) by (simp add: degree_explicit degree_default)
  then show ?thesis
    using assms(1,2,3,4) by (simp add: fit_def Let_def)
qed

text \<open>The container trained with the degree 2 and trained without a degree.\<close>

lemma degree_default_example: "fit small_lib container = fit small_lib no_degree"
proof -
  let ?ps1 = "projr (read_params small_lib container)"
  let ?ps2 = "projr (read_params small_lib no_degree)"
  have a: "read_params small_lib container = Inr ?ps1" "read_params small_lib no_degree = Inr ?ps2"
    by code_simp+
  have b: "load_training_data small_lib container = load_training_data small_lib no_degree"
    by code_simp
  have c: "dollar ?ps1 ''target'' = dollar ?ps2 ''target''"
    by code_simp
  have d: "map_of ?ps1 ''degree'' = Some ''2''" "parse_number small_lib ''2'' = Some 2"
    by code_simp+
  have e: "list_all (\<lambda>kv. \<not> prefix ''degree'' (fst kv)) ?ps2"
    by code_simp
  show ?thesis
    by (rule degree_default_equivalence [OF a b c d e])
qed

text \<open>A key that only starts with \<^verbatim>\<open>degree\<close> is taken for it.\<close>

lemma degree_partial_match:
  "degree_of lib [(''target'', t), (''degrees'', s)] = parse_number lib s"
  by (simp add: degree_of_def dollar_def)

text \<open>
  C4 on the code. The hyperparameter file \<^verbatim>\<open>{"target":"y","degrees":"3"}\<close> has no key
  \<^verbatim>\<open>degree\<close>, yet \<^verbatim>\<open>training_params$degree\<close> is not \<^verbatim>\<open>NULL\<close>: the operator \<^verbatim>\<open>$\<close> takes the one
  name that starts with \<^verbatim>\<open>degree\<close>. Training then fits with degree 3, not with the
  default 2.
\<close>

theorem degrees_key_sets_degree:
  "read_params small_lib degrees_container = Inr [(''target'', ''y''), (''degrees'', ''3'')] \<and>
   map_of [(''target'', ''y''), (''degrees'', ''3'')] ''degree'' = (None :: string option) \<and>
   dollar [(''target'', ''y''), (''degrees'', ''3'')] ''degree'' = Some ''3'' \<and>
   degree_of small_lib [(''target'', ''y''), (''degrees'', ''3'')] = Some 3 \<and>
   (\<exists>model levels. fit small_lib degrees_container = Inr (model, levels) \<and>
      map_of (elems model) ''degree'' = Some (RNum [3]))"
proof -
  have a: "read_params small_lib degrees_container = Inr [(''target'', ''y''), (''degrees'', ''3'')]"
    by code_simp
  have b: "map_of [(''target'', ''y''), (''degrees'', ''3'')] ''degree'' = (None :: string option)"
    by simp
  have c: "dollar [(''target'', ''y''), (''degrees'', ''3'')] ''degree'' = Some ''3''"
    by (simp add: dollar_def)
  have d: "degree_of small_lib [(''target'', ''y''), (''degrees'', ''3'')] = Some 3"
    by code_simp
  have "fit small_lib degrees_container =
      Inr (fst (projr (fit small_lib degrees_container)), snd (projr (fit small_lib degrees_container))) \<and>
    map_of (elems (fst (projr (fit small_lib degrees_container)))) ''degree'' = Some (RNum [3])"
    by code_simp
  then have e: "\<exists>model levels. fit small_lib degrees_container = Inr (model, levels) \<and>
      map_of (elems model) ''degree'' = Some (RNum [3])"
    by blast
  from a b c d e show ?thesis
    by (intro conjI)
qed

section \<open>The column layout at inference (C1)\<close>

lemma expand_var_names:
  assumes "case u of NumVar xs \<Rightarrow> (\<exists>ys. v = NumVar ys)
           | FacVar lv xs \<Rightarrow> (\<exists>ys. v = FacVar lv ys)
           | LogVar xs \<Rightarrow> (\<exists>ys. v = LogVar ys)"
  shows "map_sum id (map fst) (expand_var n u) = map_sum id (map fst) (expand_var n v)"
  using assms by (cases u) (auto simp: comp_def)

lemma expand_vars_names:
  assumes "list_all2 (\<lambda>a b. fst a = fst b \<and>
              (case snd a of NumVar xs \<Rightarrow> (\<exists>ys. snd b = NumVar ys)
               | FacVar lv xs \<Rightarrow> (\<exists>ys. snd b = FacVar lv ys)
               | LogVar xs \<Rightarrow> (\<exists>ys. snd b = LogVar ys))) mf1 mf2"
  shows "map_sum id (map fst) (expand_vars mf1) = map_sum id (map fst) (expand_vars mf2)"
  using assms
proof (induction rule: list_all2_induct)
  case Nil
  then show ?case by simp
next
  case (Cons a mf1 b mf2)
  from Cons.hyps(1) have n: "fst a = fst b" and
    s: "case snd a of NumVar xs \<Rightarrow> (\<exists>ys. snd b = NumVar ys)
        | FacVar lv xs \<Rightarrow> (\<exists>ys. snd b = FacVar lv ys)
        | LogVar xs \<Rightarrow> (\<exists>ys. snd b = LogVar ys)"
    by simp_all
  from expand_var_names [OF s, of "fst a"] n Cons.IH show ?case
    by (cases "expand_var (fst a) (snd a)"; cases "expand_var (fst b) (snd b)";
        cases "expand_vars mf1"; cases "expand_vars mf2") auto
qed

lemma set_map_filter_id: "v \<in> set (List.map_filter id ys) \<Longrightarrow> Some v \<in> set ys"
  by (induction ys) (auto split: option.splits)

lemma set_keep_rows:
  assumes "v \<in> set (keep_rows m xs)"
  shows "Some v \<in> set xs"
proof -
  from assms have "Some v \<in> set (map snd (filter (\<lambda>mx. \<not> fst mx) (zip m xs)))"
    unfolding keep_rows_def by (rule set_map_filter_id)
  then obtain b where "(b, Some v) \<in> set (zip m xs)"
    by auto
  then show ?thesis
    by (rule set_zip_rightD)
qed

lemma map_fst_na_omit: "map fst (na_omit df) = map fst df"
  by (simp add: na_omit_def comp_def)

lemma relevel_distinct:
  assumes "distinct (map fst mf)"
    and "\<forall>lv vals. (nm, FacVar lv vals) \<in> set mf \<longrightarrow> set vals \<subseteq> set xl"
  shows "relevel nm xl mf =
           Inr (map (\<lambda>nv. if fst nv = nm
                           then (case snd nv of FacVar lv vals \<Rightarrow> (nm, FacVar xl vals) | _ \<Rightarrow> nv)
                           else nv) mf)"
  using assms
proof (induction mf)
  case Nil
  then show ?case by simp
next
  case (Cons nv mf)
  show ?case
  proof (cases "fst nv = nm")
    case True
    with Cons.prems(1) have "\<forall>x\<in>set mf. fst x \<noteq> nm"
      by (fastforce simp: image_iff)
    then have rest: "map (\<lambda>nv. if fst nv = nm
                           then (case snd nv of FacVar lv vals \<Rightarrow> (nm, FacVar xl vals) | _ \<Rightarrow> nv)
                           else nv) mf = mf"
      by (induction mf) auto
    show ?thesis
    proof (cases "snd nv")
      case (FacVar lv vals)
      with True have "(nm, FacVar lv vals) \<in> set (nv # mf)"
        by (cases nv) auto
      with Cons.prems(2) have "set vals \<subseteq> set xl"
        by blast
      then have "filter (\<lambda>l. l \<in> set vals \<and> l \<notin> set xl) lv = []"
        by (auto simp: filter_empty_conv)
      with True FacVar rest show ?thesis
        by simp
    next
      case (NumVar xs)
      with True rest show ?thesis by simp
    next
      case (LogVar bs)
      with True rest show ?thesis by simp
    qed
  next
    case False
    with Cons show ?thesis
      by auto
  qed
qed

lemma apply_xlev_distinct:
  assumes "distinct (map fst xlev)" and "distinct (map fst mf)"
    and "\<forall>nm xl lv vals. (nm, xl) \<in> set xlev \<longrightarrow> (nm, FacVar lv vals) \<in> set mf \<longrightarrow> set vals \<subseteq> set xl"
  shows "apply_xlev xlev mf =
           Inr (map (\<lambda>nv. (fst nv,
                   case snd nv of
                     FacVar lv vals \<Rightarrow>
                       (case map_of xlev (fst nv) of Some xl \<Rightarrow> FacVar xl vals | None \<Rightarrow> FacVar lv vals)
                   | v \<Rightarrow> v)) mf)"
  using assms
proof (induction xlev arbitrary: mf)
  case Nil
  have "map (\<lambda>nv. (fst nv,
                   case snd nv of
                     FacVar lv vals \<Rightarrow>
                       (case map_of [] (fst nv) of Some xl \<Rightarrow> FacVar xl vals | None \<Rightarrow> FacVar lv vals)
                   | v \<Rightarrow> v)) mf = mf"
    by (induction mf) (auto split: variable.splits)
  then show ?case by simp
next
  case (Cons nx rest)
  obtain nm xl where nx: "nx = (nm, xl)" by (cases nx)
  let ?f = "\<lambda>nv. if fst nv = nm
                  then (case snd nv of FacVar lv vals \<Rightarrow> (nm, FacVar xl vals) | _ \<Rightarrow> nv)
                  else nv"
  have r: "relevel nm xl mf = Inr (map ?f mf)"
    using Cons.prems(2,3) nx by (intro relevel_distinct) auto
  have names: "map fst (map ?f mf) = map fst mf"
    by (induction mf) (auto split: variable.splits)
  have d: "distinct (map fst (map ?f mf))"
    using Cons.prems(2) by (simp only: names)
  have fresh: "nm \<notin> fst ` set rest"
    using Cons.prems(1) nx by auto
  have c: "\<forall>nm' xl' lv vals. (nm', xl') \<in> set rest \<longrightarrow> (nm', FacVar lv vals) \<in> set (map ?f mf) \<longrightarrow>
      set vals \<subseteq> set xl'"
  proof (intro allI impI)
    fix nm' xl' lv vals
    assume a: "(nm', xl') \<in> set rest" and b: "(nm', FacVar lv vals) \<in> set (map ?f mf)"
    from a fresh have ne: "nm' \<noteq> nm" by force
    from b obtain nv where nv: "nv \<in> set mf" and e: "?f nv = (nm', FacVar lv vals)"
      by auto
    from e ne have "nv = (nm', FacVar lv vals)"
      by (cases "fst nv = nm") (auto split: variable.splits)
    with nv a Cons.prems(3) show "set vals \<subseteq> set xl'"
      by (metis list.set_intros(2))
  qed
  have dr: "distinct (map fst rest)"
    using Cons.prems(1) by simp
  have ih: "apply_xlev rest (map ?f mf) =
      Inr (map (\<lambda>nv. (fst nv,
                   case snd nv of
                     FacVar lv vals \<Rightarrow>
                       (case map_of rest (fst nv) of Some xl \<Rightarrow> FacVar xl vals | None \<Rightarrow> FacVar lv vals)
                   | v \<Rightarrow> v)) (map ?f mf))"
    by (rule Cons.IH [OF dr d c])
  have none: "map_of rest nm = None"
    using fresh by (simp add: map_of_eq_None_iff)
  have "map (\<lambda>nv. (fst nv,
                   case snd nv of
                     FacVar lv vals \<Rightarrow>
                       (case map_of rest (fst nv) of Some xl \<Rightarrow> FacVar xl vals | None \<Rightarrow> FacVar lv vals)
                   | v \<Rightarrow> v)) (map ?f mf) =
        map (\<lambda>nv. (fst nv,
                   case snd nv of
                     FacVar lv vals \<Rightarrow>
                       (case map_of ((nm, xl) # rest) (fst nv) of Some xl \<Rightarrow> FacVar xl vals | None \<Rightarrow> FacVar lv vals)
                   | v \<Rightarrow> v)) mf"
    using none by (induction mf) (auto split: variable.splits)
  then show ?case
    by (simp only: nx apply_xlev.simps fst_conv snd_conv r sum.case ih)
qed


lemma levels_of_set: "(n, lv) \<in> set (levels_of df) \<longleftrightarrow> (\<exists>xs. (n, Factor lv xs) \<in> set df)"
proof (induction df)
  case Nil
  then show ?case by simp
next
  case (Cons nc df)
  then show ?case
    by (cases nc; cases "snd nc") auto
qed

lemma distinct_levels_of: "distinct (map fst df) \<Longrightarrow> distinct (map fst (levels_of df))"
proof (induction df)
  case Nil
  then show ?case by simp
next
  case (Cons nc df)
  have "fst nc \<notin> fst ` set (levels_of df)"
  proof
    assume "fst nc \<in> fst ` set (levels_of df)"
    then obtain lv where "(fst nc, lv) \<in> set (levels_of df)"
      by auto
    then obtain xs where "(fst nc, Factor lv xs) \<in> set df"
      by (auto simp: levels_of_set)
    then have "fst nc \<in> fst ` set df"
      by (metis fst_conv imageI)
    with Cons.prems show False
      by simp
  qed
  with Cons show ?case
    by (cases "snd nc") auto
qed

lemma map_of_levels_of:
  "distinct (map fst df) \<Longrightarrow> (n, Factor lv xs) \<in> set df \<Longrightarrow> map_of (levels_of df) n = Some lv"
  using distinct_levels_of [of df] levels_of_set [of n lv df] by (auto intro: map_of_is_SomeI)

lemma list_all2_right_set:
  assumes "list_all2 P xs ys" and "y \<in> set ys"
  shows "\<exists>x\<in>set xs. P x y"
  using assms by (induction rule: list_all2_induct) auto

lemma list_all2_map_fst:
  "list_all2 (\<lambda>a b. fst a = fst b \<and> Q a b) xs ys \<Longrightarrow> map fst ys = map fst xs"
  by (induction rule: list_all2_induct) auto

text \<open>
  The layout is kept when every field of the request is read as the kind of column it was
  in training and the values of its factors are among the training levels: then the
  stored levels give the request's design matrix the column names of training's.
\<close>

lemma layout_preserved:
  assumes d: "distinct (map fst training_data)"
    and two: "2 \<le> length (training_features training_data (Some t))"
    and x: "training_matrix lib training_data (Some t) = Inr x"
    and rq: "list_all2 (\<lambda>a b. fst a = fst b \<and>
               (case snd a of
                  Numeric xs \<Rightarrow> (\<exists>ys. snd b = Numeric ys)
                | Factor lv xs \<Rightarrow>
                    (\<exists>lv' ys. snd b = Factor lv' ys \<and> (\<forall>v. Some v \<in> set ys \<longrightarrow> v \<in> set lv))
                | Logical xs \<Rightarrow> (\<exists>ys. snd b = Logical ys)))
             (training_features training_data (Some t)) request"
  shows "\<exists>x'. model_matrix lib request (levels_of training_data) = Inr x' \<and> colnames x' = colnames x"
proof -
  let ?feats = "training_features training_data (Some t)"
  let ?xlev = "levels_of training_data"
  let ?g = "\<lambda>nv. (fst nv,
              case snd nv of
                FacVar lv vals \<Rightarrow>
                  (case map_of ?xlev (fst nv) of Some xl \<Rightarrow> FacVar xl vals | None \<Rightarrow> FacVar lv vals)
              | v \<Rightarrow> v)"
  have feats: "?feats = filter (\<lambda>nc. fst nc \<noteq> t) training_data"
    by (simp add: training_features_def)
  have sub: "set ?feats \<subseteq> set training_data"
    by (auto simp: feats)
  have ne: "?feats \<noteq> []"
    using two by auto
  from two have "model_matrix lib ?feats [] = Inr x"
    using x by (auto simp: training_matrix_def split: list.splits)
  with ne obtain cs where et: "expand_vars (na_omit ?feats) = Inr cs"
    and xeq: "x = (''(Intercept)'', replicate (nrow_mf (na_omit ?feats)) 1) # cs"
    by (auto simp: model_matrix_def model_frame_def split: sum.splits)
  have names: "map fst request = map fst ?feats"
    using rq by (rule list_all2_map_fst)
  have "distinct (map fst ?feats)"
    using d by (simp add: feats distinct_map_filter)
  then have dr: "distinct (map fst (na_omit request))"
    by (simp add: map_fst_na_omit names)
  have rne: "request \<noteq> []"
    using ne list_all2_lengthD [OF rq] by auto
  have c: "\<forall>nm xl lv vals. (nm, xl) \<in> set ?xlev \<longrightarrow> (nm, FacVar lv vals) \<in> set (na_omit request) \<longrightarrow>
      set vals \<subseteq> set xl"
  proof (intro allI impI)
    fix nm xl lv vals
    assume a: "(nm, xl) \<in> set ?xlev" and b: "(nm, FacVar lv vals) \<in> set (na_omit request)"
    from b obtain c where c: "(nm, c) \<in> set request" and o: "omit_col (na_mask request) c = FacVar lv vals"
      by (auto simp: na_omit_def)
    from o obtain ys where ys: "c = Factor lv ys" and vals: "vals = keep_rows (na_mask request) ys"
      by (cases c) auto
    from list_all2_right_set [OF rq c] obtain a' where
      a': "a' \<in> set ?feats" and
      p': "fst a' = fst (nm, c) \<and>
          (case snd a' of
             Numeric xs \<Rightarrow> (\<exists>ys. snd (nm, c) = Numeric ys)
           | Factor lv xs \<Rightarrow>
               (\<exists>lv' ys. snd (nm, c) = Factor lv' ys \<and> (\<forall>v. Some v \<in> set ys \<longrightarrow> v \<in> set lv))
           | Logical xs \<Rightarrow> (\<exists>ys. snd (nm, c) = Logical ys))"
      by blast
    then have n: "fst a' = nm" and
      k: "case snd a' of
            Numeric xs \<Rightarrow> (\<exists>ys. c = Numeric ys)
          | Factor lv xs \<Rightarrow> (\<exists>lv' ys. c = Factor lv' ys \<and> (\<forall>v. Some v \<in> set ys \<longrightarrow> v \<in> set lv))
          | Logical xs \<Rightarrow> (\<exists>ys. c = Logical ys)"
      by (simp_all split: column.splits)
    from k ys obtain lvt xs where s: "snd a' = Factor lvt xs" and v: "\<forall>v. Some v \<in> set ys \<longrightarrow> v \<in> set lvt"
      by (cases "snd a'") auto
    from a' sub have "a' \<in> set training_data"
      by blast
    moreover have "a' = (nm, Factor lvt xs)"
      using n s by (simp add: prod_eq_iff)
    ultimately have "(nm, Factor lvt xs) \<in> set training_data"
      by simp
    then have "map_of ?xlev nm = Some lvt"
      using d by (rule map_of_levels_of [rotated])
    moreover from a have "map_of ?xlev nm = Some xl"
      using distinct_levels_of [OF d] by (simp add: map_of_is_SomeI)
    ultimately have "lvt = xl"
      by simp
    with v vals show "set vals \<subseteq> set xl"
      by (auto dest: set_keep_rows)
  qed
  have ax: "apply_xlev ?xlev (na_omit request) = Inr (map ?g (na_omit request))"
    by (rule apply_xlev_distinct [OF distinct_levels_of [OF d] dr c])
  have shape: "list_all2 (\<lambda>a b. fst a = fst b \<and>
              (case snd a of NumVar xs \<Rightarrow> (\<exists>ys. snd b = NumVar ys)
               | FacVar lv xs \<Rightarrow> (\<exists>ys. snd b = FacVar lv ys)
               | LogVar xs \<Rightarrow> (\<exists>ys. snd b = LogVar ys)))
      (na_omit ?feats) (map ?g (na_omit request))"
    unfolding na_omit_def list_all2_map1 list_all2_map2
  proof (rule list.rel_mono_strong [OF rq])
    fix a b
    assume a: "a \<in> set ?feats" and b: "b \<in> set request" and
      p: "fst a = fst b \<and>
          (case snd a of
             Numeric xs \<Rightarrow> (\<exists>ys. snd b = Numeric ys)
           | Factor lv xs \<Rightarrow>
               (\<exists>lv' ys. snd b = Factor lv' ys \<and> (\<forall>v. Some v \<in> set ys \<longrightarrow> v \<in> set lv))
           | Logical xs \<Rightarrow> (\<exists>ys. snd b = Logical ys))"
    let ?ma = "foldr (\<lambda>nc m. map2 (\<or>) (cell_na (snd nc)) m) ?feats (replicate (nrow ?feats) False)"
    show "fst (fst a, omit_col (na_mask ?feats) (snd a)) =
            fst (?g (fst b, omit_col (na_mask request) (snd b))) \<and>
          (case snd (fst a, omit_col (na_mask ?feats) (snd a)) of
             NumVar xs \<Rightarrow> (\<exists>ys. snd (?g (fst b, omit_col (na_mask request) (snd b))) = NumVar ys)
           | FacVar lv xs \<Rightarrow> (\<exists>ys. snd (?g (fst b, omit_col (na_mask request) (snd b))) = FacVar lv ys)
           | LogVar xs \<Rightarrow> (\<exists>ys. snd (?g (fst b, omit_col (na_mask request) (snd b))) = LogVar ys))"
    proof (cases "snd a")
      case (Numeric xs)
      with p show ?thesis by auto
    next
      case (Logical xs)
      with p show ?thesis by auto
    next
      case (Factor lv xs)
      from a sub have "a \<in> set training_data"
        by blast
      moreover have "a = (fst a, Factor lv xs)"
        using Factor by (simp add: prod_eq_iff)
      ultimately have "(fst a, Factor lv xs) \<in> set training_data"
        by simp
      then have "map_of ?xlev (fst a) = Some lv"
        using d by (rule map_of_levels_of [rotated])
      with p Factor show ?thesis by auto
    qed
  qed
  from expand_vars_names [OF shape] et
  obtain cs' where er: "expand_vars (map ?g (na_omit request)) = Inr cs'" and cn: "map fst cs' = map fst cs"
    by (cases "expand_vars (map ?g (na_omit request))") auto
  have "model_matrix lib request ?xlev =
      Inr ((''(Intercept)'', replicate (nrow_mf (map ?g (na_omit request))) 1) # cs')"
    using rne ax er by (simp add: model_matrix_def model_frame_def)
  with cn xeq show ?thesis
    by (simp add: colnames_def)
qed

text \<open>The request of the one record whose grade is x, against the training data above.\<close>

lemma layout_preserved_example:
  "load_training_data small_lib container = Inr training_frame \<and>
   (\<exists>x'. model_matrix small_lib one_record_data (levels_of training_frame) = Inr x' \<and>
      colnames x' = [''(Intercept)'', ''x'', ''grade2'', ''gradex''])"
proof -
  let ?x = "projr (training_matrix small_lib training_frame (Some ''y''))"
  have l: "load_training_data small_lib container = Inr training_frame"
    by code_simp
  have d: "distinct (map fst training_frame)"
    by (simp add: training_frame_def)
  have two: "2 \<le> length (training_features training_frame (Some ''y''))"
    by (simp add: training_frame_def training_features_def)
  have x: "training_matrix small_lib training_frame (Some ''y'') = Inr ?x"
    by code_simp
  have rq: "list_all2 (\<lambda>a b. fst a = fst b \<and>
               (case snd a of
                  Numeric xs \<Rightarrow> (\<exists>ys. snd b = Numeric ys)
                | Factor lv xs \<Rightarrow>
                    (\<exists>lv' ys. snd b = Factor lv' ys \<and> (\<forall>v. Some v \<in> set ys \<longrightarrow> v \<in> set lv))
                | Logical xs \<Rightarrow> (\<exists>ys. snd b = Logical ys)))
             (training_features training_frame (Some ''y'')) one_record_data"
    by (simp add: training_frame_def training_features_def one_record_data_def)
  have c: "colnames ?x = [''(Intercept)'', ''x'', ''grade2'', ''gradex'']"
    by code_simp
  from layout_preserved [OF d two x rq] c l show ?thesis
    by simp
qed

text \<open>
  C1 on the code. Training on a file whose column \<^verbatim>\<open>grade\<close> holds the categories 1, 2 and
  x gives the columns \<^verbatim>\<open>(Intercept)\<close>, \<^verbatim>\<open>x\<close>, \<^verbatim>\<open>grade2\<close>, \<^verbatim>\<open>gradex\<close> and stores the three
  levels. A request whose only grade is x is read as a factor of one level, and the stored
  levels give it the training layout. A request whose only grade is 1, a category seen in
  training, is read by \<^verbatim>\<open>read.csv\<close> as a numeric column; the stored levels are then not
  applied, and the layout is \<^verbatim>\<open>(Intercept)\<close>, \<^verbatim>\<open>x\<close>, \<^verbatim>\<open>grade\<close>: one column fewer, under another
  name.
\<close>

theorem numeric_category_changes_layout:
  "load_training_data small_lib container = Inr training_frame \<and>
   levels_of training_frame = [(''grade'', [''1'', ''2'', ''x''])] \<and>
   training_matrix small_lib training_frame (Some ''y'') =
     Inr [(''(Intercept)'', [1, 1, 1]), (''x'', [1, 2, 3]), (''grade2'', [0, 1, 0]), (''gradex'', [0, 0, 1])] \<and>
   load_artifact trained_container = Inr trained_artifact \<and>
   factor_levels trained_artifact = levels_of training_frame \<and>
   read_csv small_lib (gsub backslash_n newline one_record) = Inr one_record_data \<and>
   model_matrix small_lib one_record_data (factor_levels trained_artifact) =
     Inr [(''(Intercept)'', [1]), (''x'', [5]), (''grade2'', [0]), (''gradex'', [1])] \<and>
   read_csv small_lib (gsub backslash_n newline numeric_record) =
     Inr [(''x'', Numeric [Some 5]), (''grade'', Numeric [Some 1])] \<and>
   model_matrix small_lib [(''x'', Numeric [Some 5]), (''grade'', Numeric [Some 1])]
       (factor_levels trained_artifact) =
     Inr [(''(Intercept)'', [1]), (''x'', [5]), (''grade'', [1])] \<and>
   colnames [(''(Intercept)'', [1::real]), (''x'', [5]), (''grade'', [1])] \<noteq>
     colnames [(''(Intercept)'', [1::real, 1, 1]), (''x'', [1, 2, 3]), (''grade2'', [0, 1, 0]),
               (''gradex'', [0, 0, 1])]"
proof -
  have a: "load_training_data small_lib container = Inr training_frame"
    by code_simp
  have b: "levels_of training_frame = [(''grade'', [''1'', ''2'', ''x''])]"
    by code_simp
  have c: "training_matrix small_lib training_frame (Some ''y'') =
     Inr [(''(Intercept)'', [1, 1, 1]), (''x'', [1, 2, 3]), (''grade2'', [0, 1, 0]), (''gradex'', [0, 0, 1])]"
    by code_simp
  have d: "load_artifact trained_container = Inr trained_artifact"
    by code_simp
  have e: "factor_levels trained_artifact = levels_of training_frame"
    by code_simp
  have f: "read_csv small_lib (gsub backslash_n newline one_record) = Inr one_record_data"
    by code_simp
  have g: "model_matrix small_lib one_record_data (factor_levels trained_artifact) =
     Inr [(''(Intercept)'', [1]), (''x'', [5]), (''grade2'', [0]), (''gradex'', [1])]"
    by code_simp
  have h: "read_csv small_lib (gsub backslash_n newline numeric_record) =
     Inr [(''x'', Numeric [Some 5]), (''grade'', Numeric [Some 1])]"
    by code_simp
  have i: "model_matrix small_lib [(''x'', Numeric [Some 5]), (''grade'', Numeric [Some 1])]
       (factor_levels trained_artifact) =
     Inr [(''(Intercept)'', [1]), (''x'', [5]), (''grade'', [1])]"
    by code_simp
  have j: "colnames [(''(Intercept)'', [1::real]), (''x'', [5]), (''grade'', [1])] \<noteq>
     colnames [(''(Intercept)'', [1::real, 1, 1]), (''x'', [1, 2, 3]), (''grade2'', [0, 1, 0]),
               (''gradex'', [0, 0, 1])]"
    by (simp add: colnames_def)
  from a b c d e f g h i j show ?thesis
    by (intro conjI)
qed

end
